theory Spec2Isabelle
  imports Complex_Main
begin

section \<open>Python values\<close>

text \<open>
  The chatbot of \<^verbatim>\<open>sales_chatbot.py\<close> works on the dictionary that \<^verbatim>\<open>json.loads\<close>
  builds from the reply of the text-understanding service. Its values are modelled
  by the datatype below. A finite float is the rational it denotes; the two special
  floats that \<^verbatim>\<open>json.loads\<close> also accepts have constructors of their own
  (\<open>JInf True\<close> is plus infinity). A dictionary is the list of its items and is read
  with \<open>map_of\<close>.
\<close>

datatype json =
    JNull
  | JBool bool
  | JInt int
  | JFloat rat
  | JNaN
  | JInf bool
  | JStr string
  | JArr "json list"
  | JObj "(string \<times> json) list"

text \<open>The exceptions that the modelled code can meet.\<close>

datatype exn =
    TypeError
  | ValueError
  | AttributeError
  | IllegalMonthError
  | JSONDecodeError
  | CollaboratorError

text \<open>\<^verbatim>\<open>d.get(key)\<close> and \<^verbatim>\<open>d.get(key, default)\<close>.\<close>

definition dict_get :: "(string \<times> json) list \<Rightarrow> string \<Rightarrow> json" where
  "dict_get d k = (case map_of d k of None \<Rightarrow> JNull | Some v \<Rightarrow> v)"

definition dict_get_default :: "(string \<times> json) list \<Rightarrow> string \<Rightarrow> json \<Rightarrow> json" where
  "dict_get_default d k dflt = (case map_of d k of None \<Rightarrow> dflt | Some v \<Rightarrow> v)"

text \<open>Python truth value of an object, as used by \<^verbatim>\<open>if x:\<close>, \<^verbatim>\<open>x or y\<close>, \<^verbatim>\<open>not x\<close>.\<close>

fun truthy :: "json \<Rightarrow> bool" where
  "truthy JNull = False"
| "truthy (JBool b) = b"
| "truthy (JInt i) = (i \<noteq> 0)"
| "truthy (JFloat r) = (r \<noteq> 0)"
| "truthy JNaN = True"
| "truthy (JInf s) = True"
| "truthy (JStr s) = (s \<noteq> [])"
| "truthy (JArr xs) = (xs \<noteq> [])"
| "truthy (JObj kvs) = (kvs \<noteq> [])"

text \<open>
  \<^verbatim>\<open>x < 0.5\<close>: defined between numbers (a bool is the integer 0 or 1), a
  \<^verbatim>\<open>TypeError\<close> for \<^verbatim>\<open>None\<close>, strings, lists and dictionaries.
\<close>

fun lt_half :: "json \<Rightarrow> exn + bool" where
  "lt_half (JBool b) = Inr (\<not> b)"
| "lt_half (JInt i) = Inr (of_int i < (1/2 :: rat))"
| "lt_half (JFloat r) = Inr (r < 1/2)"
| "lt_half JNaN = Inr False"
| "lt_half (JInf s) = Inr (\<not> s)"
| "lt_half JNull = Inl TypeError"
| "lt_half (JStr s) = Inl TypeError"
| "lt_half (JArr xs) = Inl TypeError"
| "lt_half (JObj kvs) = Inl TypeError"

text \<open>
  \<^verbatim>\<open>x == n\<close> for an integer \<open>n\<close>: numeric equality for numbers, \<open>False\<close> for
  every other object. It decides \<^verbatim>\<open>item_id in self.available_items\<close> and the row
  filters of the data frame.
\<close>

fun num_eq :: "json \<Rightarrow> int \<Rightarrow> bool" where
  "num_eq (JBool b) n = ((if b then 1 else 0) = n)"
| "num_eq (JInt i) n = (i = n)"
| "num_eq (JFloat r) n = (r = of_int n)"
| "num_eq JNull n = False"
| "num_eq JNaN n = False"
| "num_eq (JInf s) n = False"
| "num_eq (JStr s) n = False"
| "num_eq (JArr xs) n = False"
| "num_eq (JObj kvs) n = False"

definition py_in :: "json \<Rightarrow> int list \<Rightarrow> bool" where
  "py_in x xs = list_ex (num_eq x) xs"

section \<open>Strings\<close>

text \<open>
  A Python \<^verbatim>\<open>str\<close> is modelled as a \<^typ>\<open>string\<close> of ASCII characters. The helpers
  below are the string methods that the date normalizer calls, on ASCII text:
  \<open>lower\<close> maps the letters A to Z and \<open>strip\<close> removes the ASCII white space
  (Python also lowers accented capitals and strips U+0085 and U+00A0).
\<close>

definition is_digit :: "char \<Rightarrow> bool" where
  "is_digit c = (c \<in> set ''0123456789'')"

definition digit_val :: "char \<Rightarrow> int" where
  "digit_val c = int (length (takeWhile (\<lambda>d. d \<noteq> c) ''0123456789''))"

definition int_of_digits :: "string \<Rightarrow> int" where
  "int_of_digits ds = foldl (\<lambda>a c. 10 * a + digit_val c) 0 ds"

definition digit_char :: "nat \<Rightarrow> char" where
  "digit_char n = ''0123456789'' ! n"

text \<open>\<^verbatim>\<open>str(n)\<close> for an integer: the decimal digits, with a minus sign when negative.\<close>

fun str_nat :: "nat \<Rightarrow> string" where
  "str_nat n = (if n < 10 then [digit_char n] else str_nat (n div 10) @ [digit_char (n mod 10)])"

declare str_nat.simps [simp del]

definition str_int :: "int \<Rightarrow> string" where
  "str_int i = (if i < 0 then CHR ''-'' # str_nat (nat (- i)) else str_nat (nat i))"

text \<open>\<^verbatim>\<open>format(i, '02d')\<close>: at least two characters, zero-filled, the sign counted.\<close>

definition fmt_02d :: "int \<Rightarrow> string" where
  "fmt_02d i = (if 0 \<le> i \<and> i < 10 then CHR ''0'' # str_int i else str_int i)"

text \<open>\<^verbatim>\<open>s.zfill(w)\<close>: zeros on the left up to width \<open>w\<close>, after a leading sign.\<close>

definition zfill :: "nat \<Rightarrow> string \<Rightarrow> string" where
  "zfill w s =
     (if w \<le> length s then s
      else (case s of
              c # r \<Rightarrow> (if c = CHR ''+'' \<or> c = CHR ''-''
                         then c # replicate (w - length s) CHR ''0'' @ r
                         else replicate (w - length s) CHR ''0'' @ s)
            | [] \<Rightarrow> replicate w CHR ''0''))"

definition lower_char :: "char \<Rightarrow> char" where
  "lower_char c =
     (case map_of (zip ''ABCDEFGHIJKLMNOPQRSTUVWXYZ'' ''abcdefghijklmnopqrstuvwxyz'') c of
        None \<Rightarrow> c
      | Some l \<Rightarrow> l)"

definition lower :: "string \<Rightarrow> string" where
  "lower s = map lower_char s"

definition is_space :: "char \<Rightarrow> bool" where
  "is_space c = (c \<in> set [CHR 0x09, CHR 0x0A, CHR 0x0B, CHR 0x0C, CHR 0x0D,
                           CHR 0x1C, CHR 0x1D, CHR 0x1E, CHR 0x1F, CHR '' ''])"

definition strip :: "string \<Rightarrow> string" where
  "strip s = rev (dropWhile is_space (rev (dropWhile is_space s)))"

text \<open>\<^verbatim>\<open>sub in s\<close> for two strings.\<close>

fun contains :: "string \<Rightarrow> string \<Rightarrow> bool" where
  "contains sub [] = (sub = [])"
| "contains sub (c # cs) = (take (length sub) (c # cs) = sub \<or> contains sub cs)"

text \<open>\<^verbatim>\<open>s.split(sep)\<close> for a one-character separator.\<close>

fun split_on :: "char \<Rightarrow> string \<Rightarrow> string list" where
  "split_on sep [] = [[]]"
| "split_on sep (c # cs) =
     (if c = sep then [] # split_on sep cs
      else (case split_on sep cs of
              p # ps \<Rightarrow> (c # p) # ps
            | [] \<Rightarrow> [[c]]))"

section \<open>Calendar\<close>

text \<open>
  A calendar date is the triple (year, month, day). \<open>isleap\<close> and \<open>monthrange_days\<close>
  follow \<^verbatim>\<open>calendar.isleap\<close> and the second component of
  \<^verbatim>\<open>calendar.monthrange\<close> of the Python standard library.
\<close>

type_synonym date = "int \<times> int \<times> int"

definition isleap :: "int \<Rightarrow> bool" where
  "isleap y = (y mod 4 = 0 \<and> (y mod 100 \<noteq> 0 \<or> y mod 400 = 0))"

definition mdays :: "int list" where
  "mdays = [0, 31, 28, 31, 30, 31, 30, 31, 31, 30, 31, 30, 31]"

definition monthrange_days :: "int \<Rightarrow> int \<Rightarrow> exn + int" where
  "monthrange_days y m =
     (if \<not> (1 \<le> m \<and> m \<le> 12) then Inl IllegalMonthError
      else Inr (mdays ! nat m + (if m = 2 \<and> isleap y then 1 else 0)))"

text \<open>
  \<^verbatim>\<open>datetime.strptime(s, '%Y-%m-%d')\<close>. The format compiles to the regular expression
  \<^verbatim>\<open>(\d\d\d\d)-(1[0-2]|0[1-9]|[1-9])-(3[01]|[12]\d|0[1-9]|[1-9]| [1-9])\<close>, which has to
  consume the whole string; the three numbers must then form a date of the
  calendar with a year of at least 1. Every failure is a \<^verbatim>\<open>ValueError\<close>.
\<close>

definition month_token :: "string \<Rightarrow> int option" where
  "month_token t =
     (case t of
        [a] \<Rightarrow> (if a \<in> set ''123456789'' then Some (digit_val a) else None)
      | [a, b] \<Rightarrow>
          (if a = CHR ''1'' \<and> b \<in> set ''012'' then Some (10 + digit_val b)
           else if a = CHR ''0'' \<and> b \<in> set ''123456789'' then Some (digit_val b)
           else None)
      | _ \<Rightarrow> None)"

definition day_token :: "string \<Rightarrow> int option" where
  "day_token t =
     (case t of
        [a] \<Rightarrow> (if a \<in> set ''123456789'' then Some (digit_val a) else None)
      | [a, b] \<Rightarrow>
          (if a = CHR ''3'' \<and> b \<in> set ''01'' then Some (30 + digit_val b)
           else if a \<in> set ''12'' \<and> is_digit b then Some (10 * digit_val a + digit_val b)
           else if a = CHR ''0'' \<and> b \<in> set ''123456789'' then Some (digit_val b)
           else if a = CHR '' '' \<and> b \<in> set ''123456789'' then Some (digit_val b)
           else None)
      | _ \<Rightarrow> None)"

definition valid_date :: "date \<Rightarrow> bool" where
  "valid_date d =
     (case d of (y, m, dd) \<Rightarrow>
        1 \<le> y \<and> y \<le> 9999 \<and>
        (case monthrange_days y m of Inl e \<Rightarrow> False | Inr n \<Rightarrow> 1 \<le> dd \<and> dd \<le> n))"

definition strptime_ymd :: "string \<Rightarrow> exn + date" where
  "strptime_ymd s =
     (case split_on CHR ''-'' s of
        [y, m, d] \<Rightarrow>
          (if length y = 4 \<and> list_all is_digit y then
             (case (month_token m, day_token d) of
                (Some mm, Some dd) \<Rightarrow>
                  (if valid_date (int_of_digits y, mm, dd)
                   then Inr (int_of_digits y, mm, dd) else Inl ValueError)
              | _ \<Rightarrow> Inl ValueError)
           else Inl ValueError)
      | _ \<Rightarrow> Inl ValueError)"

text \<open>
  \<^verbatim>\<open>d.strftime('%Y-%m-%d')\<close>: the canonical form, year on four digits, month and
  day on two. (For a year below 1000 the padding of \<^verbatim>\<open>%Y\<close> is left to the C
  library; the theorems below use this function for years from 1000 on.)
\<close>

definition strftime_ymd :: "date \<Rightarrow> string" where
  "strftime_ymd d = (case d of (y, m, dd) \<Rightarrow>
     zfill 4 (str_int y) @ ''-'' @ fmt_02d m @ ''-'' @ fmt_02d dd)"

section \<open>Date normalizer\<close>

text \<open>
  \<^verbatim>\<open>re.match(r'\d{1,2}-\d{1,2}-\d{4}', s)\<close>: the pattern is anchored at the start of
  the string only. \<open>digits12_dash\<close> consumes \<^verbatim>\<open>\d{1,2}-\<close> and returns the rest.
\<close>

fun digits12_dash :: "string \<Rightarrow> string option" where
  "digits12_dash (a # b # c # r) =
     (if is_digit a \<and> is_digit b \<and> c = CHR ''-'' then Some r
      else if is_digit a \<and> b = CHR ''-'' then Some (c # r)
      else None)"
| "digits12_dash [a, b] = (if is_digit a \<and> b = CHR ''-'' then Some [] else None)"
| "digits12_dash [a] = None"
| "digits12_dash [] = None"

definition re_match_dmy :: "string \<Rightarrow> bool" where
  "re_match_dmy s =
     (case digits12_dash s of
        None \<Rightarrow> False
      | Some r \<Rightarrow>
          (case digits12_dash r of
             None \<Rightarrow> False
           | Some y \<Rightarrow> 4 \<le> length y \<and> list_all is_digit (take 4 y)))"

text \<open>
  \<^verbatim>\<open>SalesPredictionChatbot._parse_date_input\<close> (lines 59 to 105). \<open>now_year\<close> is
  \<^verbatim>\<open>datetime.now().year\<close>.
\<close>

definition may_dates :: "int \<Rightarrow> string \<Rightarrow> string list" where
  "may_dates now_year s =
     (let year = (if contains ''2024'' s then 2024 else now_year)
      in map (\<lambda>day. str_int year @ ''-05-'' @ fmt_02d day) [1..31])"

definition dmy_dates :: "string \<Rightarrow> string list option" where
  "dmy_dates s =
     (if re_match_dmy s then
        (case split_on CHR ''-'' s of
           [day, month, year] \<Rightarrow> Some [year @ ''-'' @ zfill 2 month @ ''-'' @ zfill 2 day]
         | _ \<Rightarrow> None)
      else None)"

definition parse_date_input :: "int \<Rightarrow> string \<Rightarrow> string list" where
  "parse_date_input now_year date_str =
     (if date_str = [] then []
      else
        (let s = strip (lower date_str) in
         if list_ex (\<lambda>word. contains word s) [''whole'', ''entire'', ''all of'']
            \<and> contains ''may'' s
         then may_dates now_year s
         else if contains ''may'' s then may_dates now_year s
         else (case dmy_dates s of
                 Some ds \<Rightarrow> ds
               | None \<Rightarrow>
                   (case strptime_ymd s of
                      Inr d \<Rightarrow> [strftime_ymd d]
                    | Inl e \<Rightarrow> []))))"

section \<open>Data set, replies and collaborators\<close>

text \<open>One row of \<^verbatim>\<open>sales_data_with_mapped_ids_v3.csv\<close>, with the columns the code reads.\<close>

record sales_record =
  ITEMID_Mapped :: int
  ORDERDATE :: date
  TOTAL_ITEMSOLD :: int
  DAY :: int
  MONTH :: int
  YEAR :: int
  DAY_NUM :: int
  IS_WEEKEND :: int
  FESTIVAL_ENC :: int
  ROLLING_3DAY_AVG :: rat

text \<open>
  The texts that the operations return. Each constructor stands for one string literal
  or f-string of the source and carries the values that the f-string interpolates:
  \<^item> \<open>Verbatim v\<close>: the value of \<^verbatim>\<open>clarification_needed\<close>, returned as it is (line 379);
  \<^item> \<open>NeedMoreInfo\<close>: "I need more information. Please specify your request clearly.";
  \<^item> \<open>DataNotAvailable\<close>: "Data not available for analysis." (lines 120, 171);
  \<^item> \<open>NoDataPeriod\<close>: "No data found for the specified period." (line 132);
  \<^item> \<open>NoSalesDataPeriod\<close>: "No sales data found for the specified period." (line 138);
  \<^item> \<open>MostSold may_year top total top5\<close>: the ranking text of lines 147 to 151;
    \<open>may_year\<close> is the year printed after "May", or \<open>None\<close> for "the specified period";
  \<^item> \<open>ErrorAnalyzing\<close>: "Error analyzing sales data: ..." (lines 157, 211);
  \<^item> \<open>NoDataCriteria\<close>: "No data found for the specified criteria." (line 186);
  \<^item> \<open>SalesSummary item dates total avg mx mn\<close>: the summary text of lines 193 to 205;
  \<^item> \<open>SpecifyPeriod\<close>: "Please specify a time period for analysis." (line 420);
  \<^item> \<open>ItemNotAvailable item sample more\<close>: "Item ID ... is not available. Available
    items: ..." (line 428), \<open>more\<close> telling whether "..." is appended;
  \<^item> \<open>SpecifyDate\<close>: "Please specify a date for the prediction." (line 431);
  \<^item> \<open>InvalidDateFormat\<close>: "Invalid date format. Please use YYYY-MM-DD format." (line 437);
  \<^item> \<open>ProcessingError\<close>: "I encountered an error while processing your request: ..."
    (line 457);
  \<^item> \<open>Generated t\<close>: the text written by the response-rendering service (line 355);
  \<^item> \<open>HereAreResults r\<close>: "Here are your prediction results: ..." (line 359);
  \<^item> \<open>FileNotFound f\<close>, \<open>FileLoadingError\<close>, \<open>PredictInvalidDate\<close>,
    \<open>NoHistoricalData item date\<close>, \<open>ActualPredicted a p\<close>: the five texts of
    \<^verbatim>\<open>predict_sales\<close> (\<^verbatim>\<open>predict.py\<close>, lines 23, 30, 36, 42, 63).
\<close>

datatype dates_line = NoDatesLine | DatesJoined "string list" | DateRangeDays nat

datatype reply =
    Verbatim json
  | NeedMoreInfo
  | DataNotAvailable
  | NoDataPeriod
  | NoSalesDataPeriod
  | MostSold "json option" int int "(int \<times> int) list"
  | ErrorAnalyzing
  | NoDataCriteria
  | SalesSummary "json option" dates_line int rat int int
  | SpecifyPeriod
  | ItemNotAvailable json "int list" bool
  | SpecifyDate
  | InvalidDateFormat
  | ProcessingError
  | Generated string
  | HereAreResults reply
  | FileNotFound string
  | FileLoadingError
  | PredictInvalidDate
  | NoHistoricalData json string
  | ActualPredicted int int

text \<open>What loading the model file and the data file gives \<^verbatim>\<open>predict_sales\<close>.\<close>

datatype load_outcome = FileMissing string | LoadFailed | Loaded "sales_record list"

text \<open>
  The collaborators that lie outside the repository, as parameters of the model:
  \<^item> \<open>current_year\<close>: \<^verbatim>\<open>datetime.now().year\<close>;
  \<^item> \<open>chat_extract\<close>: the chat completion of \<^verbatim>\<open>extract_parameters\<close> for a user
    query: an exception, or the content of the first choice (which may be \<^verbatim>\<open>None\<close>);
  \<^item> \<open>json_loads\<close>: \<^verbatim>\<open>json.loads\<close>;
  \<^item> \<open>chat_render\<close>: the chat completion of \<^verbatim>\<open>generate_response\<close>;
  \<^item> \<open>pd_to_datetime\<close>: \<^verbatim>\<open>pandas.to_datetime\<close> on one value;
  \<^item> \<open>sort_values\<close>: \<^verbatim>\<open>Series.sort_values(ascending=False)\<close> on the per-item sums,
    given as (item id, sum) pairs in the order of the group keys;
  \<^item> \<open>load_files\<close>: the outcome of lines 12 to 30 of \<^verbatim>\<open>predict.py\<close>;
  \<^item> \<open>model_predict\<close>: the regression model on one feature vector.
\<close>

record env =
  current_year :: int
  chat_extract :: "string \<Rightarrow> exn + string option"
  json_loads :: "string \<Rightarrow> exn + json"
  chat_render :: "reply \<Rightarrow> string \<Rightarrow> (string \<times> json) list \<Rightarrow> exn + string option"
  pd_to_datetime :: "json \<Rightarrow> exn + date"
  sort_values :: "(int \<times> int) list \<Rightarrow> (int \<times> int) list"
  load_files :: load_outcome
  model_predict :: "rat list \<Rightarrow> exn + rat"

text \<open>
  \<^verbatim>\<open>column == x\<close> on an integer column: element-wise numeric equality for a scalar
  \<open>x\<close>; no row equals a string or a dictionary. The parameters compared this way
  are declared \<^verbatim>\<open>int\<close>; for a list pandas compares element-wise when the lengths
  agree and raises on a length mismatch, which is modelled as the raise.
\<close>

fun series_eq :: "json \<Rightarrow> exn + (int \<Rightarrow> bool)" where
  "series_eq (JArr xs) = Inl ValueError"
| "series_eq x = Inr (num_eq x)"

section \<open>Analytics operations\<close>

subsection \<open>Most sold item\<close>

text \<open>
  \<^verbatim>\<open>groupby('ITEMID_Mapped')['TOTAL_ITEMSOLD'].sum()\<close>: one entry per item id, the
  group keys in ascending order.
\<close>

definition groupby_sum :: "sales_record list \<Rightarrow> (int \<times> int) list" where
  "groupby_sum rows =
     map (\<lambda>k. (k, sum_list (map TOTAL_ITEMSOLD (filter (\<lambda>r. ITEMID_Mapped r = k) rows))))
         (sort (remdups (map ITEMID_Mapped rows)))"

definition filter_by :: "json \<Rightarrow> (sales_record \<Rightarrow> int) \<Rightarrow> sales_record list
    \<Rightarrow> exn + sales_record list" where
  "filter_by x col rows =
     (if truthy x then
        (case series_eq x of
           Inl e \<Rightarrow> Inl e
         | Inr p \<Rightarrow> Inr (filter (\<lambda>r. p (col r)) rows))
      else Inr rows)"

definition most_sold_try :: "env \<Rightarrow> sales_record list \<Rightarrow> json \<Rightarrow> json \<Rightarrow> exn + reply" where
  "most_sold_try ev rows mon yr =
     (case filter_by mon (\<lambda>r. fst (snd (ORDERDATE r))) rows of
        Inl e \<Rightarrow> Inl e
      | Inr f1 \<Rightarrow>
          (case filter_by yr (\<lambda>r. fst (ORDERDATE r)) f1 of
             Inl e \<Rightarrow> Inl e
           | Inr f2 \<Rightarrow>
               (if f2 = [] then Inr NoDataPeriod
                else
                  (let sales_by_item = sort_values ev (groupby_sum f2) in
                   case sales_by_item of
                     [] \<Rightarrow> Inr NoSalesDataPeriod
                   | (top_item, total_sales) # rest \<Rightarrow>
                       Inr (MostSold (if num_eq mon 5 \<and> truthy yr then Some yr else None)
                              top_item total_sales (take 5 sales_by_item))))))"

text \<open>\<^verbatim>\<open>find_most_sold_item\<close> (lines 107 to 157); \<open>period\<close> is not used by the body.\<close>

definition find_most_sold_item :: "env \<Rightarrow> sales_record list option \<Rightarrow> json \<Rightarrow> json \<Rightarrow> json
    \<Rightarrow> reply" where
  "find_most_sold_item ev frame period mon yr =
     (case frame of
        None \<Rightarrow> DataNotAvailable
      | Some rows \<Rightarrow>
          (case most_sold_try ev rows mon yr of
             Inl e \<Rightarrow> ErrorAnalyzing
           | Inr r \<Rightarrow> r))"

subsection \<open>Sales summary\<close>

text \<open>
  The statistics of a column. On an empty column pandas gives \<^verbatim>\<open>NaN\<close> for the mean,
  the maximum and the minimum: \<open>None\<close> here. The sum is the integer sum and the
  mean the exact quotient (pandas sums in 64-bit integers and averages in floating
  point).
\<close>

definition mean :: "int list \<Rightarrow> rat option" where
  "mean xs = (if xs = [] then None else Some (of_int (sum_list xs) / of_nat (length xs)))"

definition list_max :: "int list \<Rightarrow> int option" where
  "list_max xs = (case xs of [] \<Rightarrow> None | x # r \<Rightarrow> Some (fold max r x))"

definition list_min :: "int list \<Rightarrow> int option" where
  "list_min xs = (case xs of [] \<Rightarrow> None | x # r \<Rightarrow> Some (fold min r x))"

fun map_exn :: "('a \<Rightarrow> exn + 'b) \<Rightarrow> 'a list \<Rightarrow> exn + 'b list" where
  "map_exn f [] = Inr []"
| "map_exn f (x # xs) =
     (case f x of
        Inl e \<Rightarrow> Inl e
      | Inr y \<Rightarrow> (case map_exn f xs of Inl e \<Rightarrow> Inl e | Inr ys \<Rightarrow> Inr (y # ys)))"

definition filter_dates :: "env \<Rightarrow> json list option \<Rightarrow> sales_record list
    \<Rightarrow> exn + sales_record list" where
  "filter_dates ev dates rows =
     (case dates of
        None \<Rightarrow> Inr rows
      | Some ds \<Rightarrow>
          (if ds = [] then Inr rows
           else (case map_exn (pd_to_datetime ev) ds of
                   Inl e \<Rightarrow> Inl e
                 | Inr date_objects \<Rightarrow>
                     Inr (filter (\<lambda>r. ORDERDATE r \<in> set date_objects) rows))))"

text \<open>\<^verbatim>\<open>', '.join(dates)\<close> raises a \<^verbatim>\<open>TypeError\<close> unless every element is a string.\<close>

fun as_str :: "json \<Rightarrow> exn + string" where
  "as_str (JStr s) = Inr s"
| "as_str x = Inl TypeError"

definition describe_dates :: "json list option \<Rightarrow> exn + dates_line" where
  "describe_dates dates =
     (case dates of
        None \<Rightarrow> Inr NoDatesLine
      | Some ds \<Rightarrow>
          (if ds = [] then Inr NoDatesLine
           else if length ds \<le> 5 then
             (case map_exn as_str ds of Inl e \<Rightarrow> Inl e | Inr ss \<Rightarrow> Inr (DatesJoined ss))
           else Inr (DateRangeDays (length ds))))"

text \<open>
  The statistics block (lines 188 to 205). \<^verbatim>\<open>int(max_sales)\<close> raises a
  \<^verbatim>\<open>ValueError\<close> on \<^verbatim>\<open>NaN\<close>.
\<close>

definition summary_stats :: "json \<Rightarrow> json list option \<Rightarrow> int list \<Rightarrow> exn + reply" where
  "summary_stats item_id dates sold =
     (case describe_dates dates of
        Inl e \<Rightarrow> Inl e
      | Inr line \<Rightarrow>
          (case (mean sold, list_max sold, list_min sold) of
             (Some avg_sales, Some max_sales, Some min_sales) \<Rightarrow>
               Inr (SalesSummary (if truthy item_id then Some item_id else None) line
                      (sum_list sold) avg_sales max_sales min_sales)
           | _ \<Rightarrow> Inl ValueError))"

definition summary_filter :: "env \<Rightarrow> sales_record list \<Rightarrow> json \<Rightarrow> json list option
    \<Rightarrow> exn + sales_record list" where
  "summary_filter ev rows item_id dates =
     (case filter_by item_id ITEMID_Mapped rows of
        Inl e \<Rightarrow> Inl e
      | Inr f1 \<Rightarrow> filter_dates ev dates f1)"

definition summary_try :: "env \<Rightarrow> sales_record list \<Rightarrow> json \<Rightarrow> json list option \<Rightarrow> exn + reply" where
  "summary_try ev rows item_id dates =
     (case summary_filter ev rows item_id dates of
        Inl e \<Rightarrow> Inl e
      | Inr df_filtered \<Rightarrow>
          (if df_filtered = [] then Inr NoDataCriteria
           else summary_stats item_id dates (map TOTAL_ITEMSOLD df_filtered)))"

text \<open>\<^verbatim>\<open>get_sales_summary\<close> (lines 159 to 211).\<close>

definition get_sales_summary :: "env \<Rightarrow> sales_record list option \<Rightarrow> json \<Rightarrow> json list option
    \<Rightarrow> reply" where
  "get_sales_summary ev frame item_id dates =
     (case frame of
        None \<Rightarrow> DataNotAvailable
      | Some rows \<Rightarrow>
          (case summary_try ev rows item_id dates of
             Inl e \<Rightarrow> ErrorAnalyzing
           | Inr r \<Rightarrow> r))"

subsection \<open>Prediction\<close>

text \<open>\<^verbatim>\<open>int(round(x))\<close>: Python rounds a half to the even neighbour.\<close>

definition py_round :: "rat \<Rightarrow> int" where
  "py_round x =
     (let f = \<lfloor>x\<rfloor>; d = x - of_int f
      in if d < 1/2 then f else if 1/2 < d then f + 1 else if even f then f else f + 1)"

definition features_for_prediction :: "sales_record \<Rightarrow> rat list" where
  "features_for_prediction row =
     [of_int (ITEMID_Mapped row), of_int (DAY row), of_int (MONTH row), of_int (YEAR row),
      of_int (DAY_NUM row), of_int (IS_WEEKEND row), of_int (FESTIVAL_ENC row),
      ROLLING_3DAY_AVG row]"

text \<open>
  \<^verbatim>\<open>predict_sales\<close> (\<^verbatim>\<open>predict.py\<close>, lines 8 to 63). The result is the returned text
  or the exception that escapes, together with the feature vectors on which the
  regression model was called.
\<close>

definition predict_sales :: "env \<Rightarrow> json \<Rightarrow> string \<Rightarrow> (exn + reply) \<times> rat list list" where
  "predict_sales ev mapped_item_id date_str =
     (case load_files ev of
        FileMissing f \<Rightarrow> (Inr (FileNotFound f), [])
      | LoadFailed \<Rightarrow> (Inr FileLoadingError, [])
      | Loaded rows \<Rightarrow>
          (case strptime_ymd date_str of
             Inl e \<Rightarrow> (Inr PredictInvalidDate, [])
           | Inr input_date \<Rightarrow>
               (case series_eq mapped_item_id of
                  Inl e \<Rightarrow> (Inl e, [])
                | Inr same_item \<Rightarrow>
                    (case filter (\<lambda>r. same_item (ITEMID_Mapped r) \<and> ORDERDATE r = input_date) rows of
                       [] \<Rightarrow> (Inr (NoHistoricalData mapped_item_id date_str), [])
                     | row # others \<Rightarrow>
                         (case model_predict ev (features_for_prediction row) of
                            Inl e \<Rightarrow> (Inl e, [features_for_prediction row])
                          | Inr predicted \<Rightarrow>
                              (Inr (ActualPredicted (TOTAL_ITEMSOLD row) (py_round predicted)),
                               [features_for_prediction row]))))))"

section \<open>Intent extractor\<close>

text \<open>
  \<^verbatim>\<open>re.search(r'\{.*\}', content, re.DOTALL).group()\<close>: from the first opening brace
  to the last closing brace after it; \<open>None\<close> when there is no such pair.
\<close>

definition brace_span :: "string \<Rightarrow> string option" where
  "brace_span s =
     (case dropWhile (\<lambda>c. c \<noteq> CHR ''{'') s of
        [] \<Rightarrow> None
      | b # r \<Rightarrow>
          (let u = rev (dropWhile (\<lambda>c. c \<noteq> CHR ''}'') (rev r))
           in if u = [] then None else Some (b # u)))"

text \<open>The dictionary returned by the \<^verbatim>\<open>except\<close> clause of lines 302 to 311.\<close>

definition fallback_parameters :: "(string \<times> json) list" where
  "fallback_parameters =
     [(''query_type'', JStr ''prediction''),
      (''item_id'', JNull),
      (''date'', JNull),
      (''confidence'', JFloat 0),
      (''missing_info'', JArr [JStr ''item_id'', JStr ''date'']),
      (''clarification_needed'',
         JStr ''I couldn't understand your request. Please specify the item ID and date for sales prediction.'')]"

text \<open>The body of the \<^verbatim>\<open>try\<close> block of lines 276 to 300: the exception it raises, or its value.\<close>

definition extract_try :: "env \<Rightarrow> string \<Rightarrow> exn + json" where
  "extract_try ev user_query =
     (case chat_extract ev user_query of
        Inl e \<Rightarrow> Inl e
      | Inr None \<Rightarrow> Inl AttributeError
      | Inr (Some c) \<Rightarrow>
          (let content = strip c in
           case json_loads ev content of
             Inr params \<Rightarrow> Inr params
           | Inl e \<Rightarrow>
               (if e = JSONDecodeError then
                  (case brace_span content of
                     Some json_match \<Rightarrow> json_loads ev json_match
                   | None \<Rightarrow> Inl ValueError)
                else Inl e)))"

text \<open>\<^verbatim>\<open>extract_parameters\<close> (lines 213 to 311).\<close>

definition extract_parameters :: "env \<Rightarrow> string \<Rightarrow> json" where
  "extract_parameters ev user_query =
     (case extract_try ev user_query of
        Inl e \<Rightarrow> JObj fallback_parameters
      | Inr params \<Rightarrow> params)"

section \<open>Response rendering\<close>

text \<open>\<^verbatim>\<open>generate_response\<close> (lines 313 to 359).\<close>

definition generate_response :: "env \<Rightarrow> reply \<Rightarrow> string \<Rightarrow> (string \<times> json) list \<Rightarrow> reply" where
  "generate_response ev prediction_result user_query params =
     (case chat_render ev prediction_result user_query params of
        Inr (Some c) \<Rightarrow> Generated (strip c)
      | Inr None \<Rightarrow> HereAreResults prediction_result
      | Inl e \<Rightarrow> HereAreResults prediction_result)"

section \<open>Query dispatcher and conversation recorder\<close>

record turn =
  query :: string
  parameters :: "(string \<times> json) list"
  result :: reply
  response :: reply

record chatbot =
  available_items :: "int list"
  df :: "sales_record list option"
  conversation_history :: "turn list"

text \<open>The operations that handling a query invokes, with their arguments, in order.\<close>

datatype call =
    FindMostSoldItem json json json
  | GetSalesSummary json "json list option"
  | PredictSales json string
  | ModelPredict "rat list"
  | GenerateResponse reply

text \<open>
  What a step of \<^verbatim>\<open>handle_query\<close> yields: the text it returns or the exception it
  raises, the chatbot afterwards, and the operations invoked.
\<close>

type_synonym outcome = "(exn + reply) \<times> chatbot \<times> call list"

text \<open>
  The dates of a month (lines 403 and 404, 416 and 417). \<^verbatim>\<open>calendar.monthrange\<close> and
  the format \<^verbatim>\<open>02d\<close> accept integers (a bool being one) and raise on anything else.
\<close>

fun int_like :: "json \<Rightarrow> int option" where
  "int_like (JInt i) = Some i"
| "int_like (JBool b) = Some (if b then 1 else 0)"
| "int_like x = None"

fun fstr_int_like :: "json \<Rightarrow> int \<Rightarrow> string" where
  "fstr_int_like (JBool b) i = (if b then ''True'' else ''False'')"
| "fstr_int_like x i = str_int i"

definition month_dates :: "json \<Rightarrow> json \<Rightarrow> exn + json list" where
  "month_dates yr mon =
     (case (int_like yr, int_like mon) of
        (Some y, Some m) \<Rightarrow>
          (case monthrange_days y m of
             Inl e \<Rightarrow> Inl e
           | Inr days_in_month \<Rightarrow>
               Inr (map (\<lambda>day. JStr (fstr_int_like yr y @ ''-'' @ fmt_02d m @ ''-'' @ fmt_02d day))
                      [1..days_in_month]))
      | _ \<Rightarrow> Inl TypeError)"

text \<open>\<^verbatim>\<open>parameters.get('year', datetime.now().year)\<close>.\<close>

definition year_of :: "env \<Rightarrow> (string \<times> json) list \<Rightarrow> json" where
  "year_of ev params = dict_get_default params ''year'' (JInt (current_year ev))"

text \<open>The branch for \<^verbatim>\<open>most_sold\<close> (lines 386 to 393).\<close>

definition most_sold_branch :: "env \<Rightarrow> chatbot \<Rightarrow> (string \<times> json) list \<Rightarrow> outcome" where
  "most_sold_branch ev self params =
     (Inr (find_most_sold_item ev (df self) (dict_get params ''period_description'')
             (dict_get params ''month'') (year_of ev params)),
      self,
      [FindMostSoldItem (dict_get params ''period_description'')
         (dict_get params ''month'') (year_of ev params)])"

text \<open>The branch for \<^verbatim>\<open>summary\<close> (lines 395 to 408).\<close>

definition summary_dates :: "env \<Rightarrow> (string \<times> json) list \<Rightarrow> exn + json list option" where
  "summary_dates ev params =
     (if truthy (dict_get params ''month'') \<and> truthy (year_of ev params) then
        (case month_dates (year_of ev params) (dict_get params ''month'') of
           Inl e \<Rightarrow> Inl e
         | Inr ds \<Rightarrow> Inr (Some ds))
      else if truthy (dict_get params ''date'') then Inr (Some [dict_get params ''date''])
      else Inr None)"

definition summary_branch :: "env \<Rightarrow> chatbot \<Rightarrow> (string \<times> json) list \<Rightarrow> outcome" where
  "summary_branch ev self params =
     (case summary_dates ev params of
        Inl e \<Rightarrow> (Inl e, self, [])
      | Inr dates \<Rightarrow>
          (Inr (get_sales_summary ev (df self) (dict_get params ''item_id'') dates),
           self,
           [GetSalesSummary (dict_get params ''item_id'') dates]))"

text \<open>The branch for \<^verbatim>\<open>analysis\<close> (lines 410 to 420).\<close>

definition analysis_branch :: "env \<Rightarrow> chatbot \<Rightarrow> (string \<times> json) list \<Rightarrow> outcome" where
  "analysis_branch ev self params =
     (if truthy (dict_get params ''month'') \<and> truthy (year_of ev params) then
        (case month_dates (year_of ev params) (dict_get params ''month'') of
           Inl e \<Rightarrow> (Inl e, self, [])
         | Inr ds \<Rightarrow>
             (Inr (get_sales_summary ev (df self) (dict_get params ''item_id'') (Some ds)),
              self,
              [GetSalesSummary (dict_get params ''item_id'') (Some ds)]))
      else (Inr SpecifyPeriod, self, []))"

text \<open>
  The \<^verbatim>\<open>else\<close> branch, "prediction type" (lines 422 to 453).
  \<^verbatim>\<open>datetime.strptime(date, '%Y-%m-%d')\<close> raises a \<^verbatim>\<open>TypeError\<close>, which the
  \<^verbatim>\<open>except ValueError\<close> of line 436 does not catch, when \<open>date\<close> is not a string.
\<close>

definition validate_date :: "json \<Rightarrow> exn + string" where
  "validate_date d =
     (case d of
        JStr s \<Rightarrow> (case strptime_ymd s of Inl e \<Rightarrow> Inl ValueError | Inr parsed \<Rightarrow> Inr s)
      | _ \<Rightarrow> Inl TypeError)"

definition run_prediction :: "env \<Rightarrow> chatbot \<Rightarrow> string \<Rightarrow> (string \<times> json) list \<Rightarrow> json \<Rightarrow> string
    \<Rightarrow> outcome" where
  "run_prediction ev self user_query params item_id d =
     (case predict_sales ev item_id d of
        (Inl e, fs) \<Rightarrow> (Inl e, self, PredictSales item_id d # map ModelPredict fs)
      | (Inr prediction_result, fs) \<Rightarrow>
          (let resp = generate_response ev prediction_result user_query params in
           (Inr resp,
            self\<lparr>conversation_history := conversation_history self @
                  [\<lparr>query = user_query, parameters = params,
                    result = prediction_result, response = resp\<rparr>]\<rparr>,
            PredictSales item_id d # map ModelPredict fs @ [GenerateResponse prediction_result])))"

definition prediction_branch :: "env \<Rightarrow> chatbot \<Rightarrow> string \<Rightarrow> (string \<times> json) list \<Rightarrow> outcome" where
  "prediction_branch ev self user_query params =
     (let item_id = dict_get params ''item_id''; d = dict_get params ''date'' in
      if \<not> py_in item_id (available_items self) then
        (Inr (ItemNotAvailable item_id (take 10 (available_items self))
                (10 < length (available_items self))), self, [])
      else if \<not> truthy d then (Inr SpecifyDate, self, [])
      else (case validate_date d of
              Inl e \<Rightarrow> (if e = ValueError then (Inr InvalidDateFormat, self, [])
                        else (Inl e, self, []))
            | Inr s \<Rightarrow> run_prediction ev self user_query params item_id s))"

text \<open>The \<^verbatim>\<open>try\<close> block of lines 384 to 453.\<close>

definition dispatch :: "env \<Rightarrow> chatbot \<Rightarrow> string \<Rightarrow> (string \<times> json) list \<Rightarrow> outcome" where
  "dispatch ev self user_query params =
     (let query_type = dict_get_default params ''query_type'' (JStr ''prediction'') in
      if query_type = JStr ''most_sold'' then most_sold_branch ev self params
      else if query_type = JStr ''summary'' then summary_branch ev self params
      else if query_type = JStr ''analysis'' then analysis_branch ev self params
      else prediction_branch ev self user_query params)"

text \<open>The \<^verbatim>\<open>except Exception\<close> clause of lines 455 to 457.\<close>

definition guarded :: "outcome \<Rightarrow> outcome" where
  "guarded out =
     (case out of
        (Inl e, b, cs) \<Rightarrow> (Inr ProcessingError, b, cs)
      | (Inr r, b, cs) \<Rightarrow> (Inr r, b, cs))"

text \<open>The gate of line 378 and the value returned at lines 379 and 380.\<close>

definition gate :: "(string \<times> json) list \<Rightarrow> exn + bool" where
  "gate params =
     (case lt_half (dict_get_default params ''confidence'' (JInt 0)) of
        Inl e \<Rightarrow> Inl e
      | Inr low \<Rightarrow> Inr (low \<or> truthy (dict_get params ''missing_info'')))"

definition clarification :: "(string \<times> json) list \<Rightarrow> reply" where
  "clarification params =
     (case map_of params ''clarification_needed'' of
        None \<Rightarrow> NeedMoreInfo
      | Some v \<Rightarrow> Verbatim v)"

text \<open>
  \<^verbatim>\<open>handle_query\<close> on the parameters that extraction returned (lines 377 to 457).
  The comparison of line 378 stands outside the \<^verbatim>\<open>try\<close> block: its
  \<^verbatim>\<open>TypeError\<close> escapes.
\<close>

definition handle_parameters :: "env \<Rightarrow> chatbot \<Rightarrow> string \<Rightarrow> (string \<times> json) list \<Rightarrow> outcome" where
  "handle_parameters ev self user_query params =
     (case gate params of
        Inl e \<Rightarrow> (Inl e, self, [])
      | Inr gated \<Rightarrow>
          (if gated then (Inr (clarification params), self, [])
           else guarded (dispatch ev self user_query params)))"

text \<open>
  \<^verbatim>\<open>handle_query\<close> (lines 361 to 457). When \<^verbatim>\<open>json.loads\<close> gave something other than
  a dictionary, \<^verbatim>\<open>parameters.get\<close> raises an \<^verbatim>\<open>AttributeError\<close>.
\<close>

definition handle_query :: "env \<Rightarrow> chatbot \<Rightarrow> string \<Rightarrow> outcome" where
  "handle_query ev self user_query =
     (case extract_parameters ev user_query of
        JObj params \<Rightarrow> handle_parameters ev self user_query params
      | _ \<Rightarrow> (Inl AttributeError, self, []))"

section \<open>Notions of the specification\<close>

text \<open>
  The turn that a query adds to the history when it is a prediction-type query that
  runs to its end: extraction gives a dictionary, the gate is passed, the query type
  is none of \<open>most_sold\<close>, \<open>summary\<close>, \<open>analysis\<close>, the item id is available, the date
  parses, and \<open>predict_sales\<close> returns a text rather than raising. \<open>None\<close> for every
  other query.
\<close>

definition executed_prediction :: "env \<Rightarrow> chatbot \<Rightarrow> string \<Rightarrow> turn option" where
  "executed_prediction ev self user_query =
     (case extract_parameters ev user_query of
        JObj params \<Rightarrow>
          (if gate params = Inr False
              \<and> dict_get_default params ''query_type'' (JStr ''prediction'') \<notin>
                  {JStr ''most_sold'', JStr ''summary'', JStr ''analysis''}
              \<and> py_in (dict_get params ''item_id'') (available_items self)
              \<and> truthy (dict_get params ''date'')
           then (case validate_date (dict_get params ''date'') of
                   Inl e \<Rightarrow> None
                 | Inr s \<Rightarrow>
                     (case fst (predict_sales ev (dict_get params ''item_id'') s) of
                        Inl e \<Rightarrow> None
                      | Inr r \<Rightarrow>
                          Some \<lparr>query = user_query, parameters = params, result = r,
                                response = generate_response ev r user_query params\<rparr>))
           else None)
      | _ \<Rightarrow> None)"

text \<open>
  The number of days of a month as the calendar has it: 28 or 29 for February, 30
  for April, June, September and November, 31 otherwise. It is written from the
  calendar's rule, not from the code, and is what the expansions are compared with.
\<close>

definition gregorian_month_length :: "int \<Rightarrow> int \<Rightarrow> int" where
  "gregorian_month_length y m =
     (if m = 2 then (if y mod 4 = 0 \<and> (y mod 100 \<noteq> 0 \<or> y mod 400 = 0) then 29 else 28)
      else if m \<in> {4, 6, 9, 11} then 30
      else 31)"


section \<open>A sample session\<close>

text \<open>
  A small data set and stub collaborators, used to run the model on concrete queries.
  The stub text-understanding service answers with the query itself, and the stub
  \<^verbatim>\<open>json.loads\<close> reads its result from a table.
\<close>

definition stub_rows :: "sales_record list" where
  "stub_rows =
     [\<lparr>ITEMID_Mapped = 3, ORDERDATE = (2024, 5, 1), TOTAL_ITEMSOLD = 42, DAY = 1, MONTH = 5,
        YEAR = 2024, DAY_NUM = 122, IS_WEEKEND = 0, FESTIVAL_ENC = 0, ROLLING_3DAY_AVG = 40\<rparr>,
      \<lparr>ITEMID_Mapped = 2, ORDERDATE = (2024, 5, 1), TOTAL_ITEMSOLD = 7, DAY = 1, MONTH = 5,
        YEAR = 2024, DAY_NUM = 122, IS_WEEKEND = 0, FESTIVAL_ENC = 0, ROLLING_3DAY_AVG = 6\<rparr>]"

definition stub_env :: "(string \<times> json) list \<Rightarrow> env" where
  "stub_env table =
     \<lparr>current_year = 2026,
      chat_extract = (\<lambda>q. Inr (Some q)),
      json_loads = (\<lambda>s. case map_of table s of None \<Rightarrow> Inl JSONDecodeError | Some j \<Rightarrow> Inr j),
      chat_render = (\<lambda>r q p. Inr (Some ''ok'')),
      pd_to_datetime = (\<lambda>j. case j of JStr s \<Rightarrow> strptime_ymd s | _ \<Rightarrow> Inl TypeError),
      sort_values = sort_key (\<lambda>p. - snd p),
      load_files = Loaded stub_rows,
      model_predict = (\<lambda>fs. Inr 40)\<rparr>"

definition stub_bot :: chatbot where
  "stub_bot = \<lparr>available_items = [2, 3], df = Some stub_rows, conversation_history = []\<rparr>"

definition low_confidence :: "(string \<times> json) list" where
  "low_confidence =
     [(''query_type'', JStr ''prediction''), (''item_id'', JInt 3), (''date'', JStr ''2024-05-01''),
      (''confidence'', JFloat (49 / 100)), (''missing_info'', JArr []),
      (''clarification_needed'', JStr ''Which item?'')]"

definition empty_date :: "(string \<times> json) list" where
  "empty_date =
     [(''query_type'', JStr ''prediction''), (''item_id'', JInt 3), (''date'', JStr ''''),
      (''confidence'', JFloat 1), (''missing_info'', JArr [])]"

definition unknown_item :: "(string \<times> json) list" where
  "unknown_item =
     [(''query_type'', JStr ''prediction''), (''item_id'', JInt 9), (''date'', JStr ''2024-05-01''),
      (''confidence'', JFloat 1), (''missing_info'', JArr [])]"

definition bad_date :: "(string \<times> json) list" where
  "bad_date =
     [(''query_type'', JStr ''prediction''), (''item_id'', JInt 3), (''date'', JStr ''01/05/2024''),
      (''confidence'', JFloat 1), (''missing_info'', JArr [])]"

definition no_query_type :: "(string \<times> json) list" where
  "no_query_type =
     [(''item_id'', JInt 3), (''date'', JStr ''2024-05-01''), (''confidence'', JFloat 1)]"

definition odd_query_type :: "(string \<times> json) list" where
  "odd_query_type =
     [(''query_type'', JStr ''forecast''), (''item_id'', JInt 9), (''date'', JStr ''2024-05-01''),
      (''confidence'', JFloat (9 / 10)), (''missing_info'', JArr [])]"

definition summary_may :: "(string \<times> json) list" where
  "summary_may =
     [(''query_type'', JStr ''summary''), (''item_id'', JInt 3), (''month'', JInt 5),
      (''year'', JInt 2024), (''confidence'', JFloat (9 / 10)), (''missing_info'', JArr [])]"

definition summary_feb_2024 :: "(string \<times> json) list" where
  "summary_feb_2024 =
     [(''query_type'', JStr ''summary''), (''month'', JInt 2), (''year'', JInt 2024),
      (''confidence'', JFloat (9 / 10)), (''missing_info'', JArr [])]"

definition analysis_feb_2023 :: "(string \<times> json) list" where
  "analysis_feb_2023 =
     [(''query_type'', JStr ''analysis''), (''month'', JInt 2), (''year'', JInt 2023),
      (''confidence'', JFloat (9 / 10)), (''missing_info'', JArr [])]"

section \<open>The gate\<close>

text \<open>
  C1. Let extraction return a parameter record whose confidence (0 when the key is
  absent) is a number below 0.5, or is a number and the record's \<open>missing_info\<close> is
  non-empty. Then \<open>handle_query\<close> returns the record's \<open>clarification_needed\<close> value,
  or the generic text when the key is absent; the chatbot is unchanged and no
  operation is invoked: neither \<open>find_most_sold_item\<close>, nor \<open>get_sales_summary\<close>, nor
  \<open>predict_sales\<close>.
\<close>

theorem gate_blocks_execution:
  assumes "extract_parameters ev user_query = JObj params"
    and "lt_half (dict_get_default params ''confidence'' (JInt 0)) = Inr True
         \<or> (lt_half (dict_get_default params ''confidence'' (JInt 0)) = Inr False
            \<and> truthy (dict_get params ''missing_info''))"
  shows "handle_query ev self user_query =
           (Inr (case map_of params ''clarification_needed'' of
                   None \<Rightarrow> NeedMoreInfo
                 | Some v \<Rightarrow> Verbatim v), self, [])"
  using assms by (auto simp: handle_query_def handle_parameters_def gate_def clarification_def)

text \<open>A record with confidence 0.49 and an empty \<open>missing_info\<close> is gated out.\<close>

theorem gate_blocks_execution_witness:
  "handle_query (stub_env [(''q'', JObj low_confidence)]) stub_bot ''q''
     = (Inr (Verbatim (JStr ''Which item?'')), stub_bot, [])"
proof -
  have h1: "extract_parameters (stub_env [(''q'', JObj low_confidence)]) ''q'' = JObj low_confidence"
    by (simp add: extract_parameters_def extract_try_def stub_env_def strip_def is_space_def)
  have h2: "lt_half (dict_get_default low_confidence ''confidence'' (JInt 0)) = Inr True"
    by (simp add: dict_get_default_def low_confidence_def)
  show ?thesis
    using gate_blocks_execution [OF h1 disjI1 [OF h2], of stub_bot]
    by (simp add: low_confidence_def)
qed

section \<open>Validation on the prediction path\<close>

lemma stub_extract:
  "extract_parameters (stub_env [(''q'', v)]) ''q'' = v"
  by (simp add: extract_parameters_def extract_try_def stub_env_def strip_def is_space_def)

lemma handle_query_open:
  assumes "extract_parameters ev user_query = JObj params" and "gate params = Inr False"
  shows "handle_query ev self user_query = guarded (dispatch ev self user_query params)"
  using assms by (simp add: handle_query_def handle_parameters_def)

lemma dispatch_prediction:
  assumes "dict_get_default params ''query_type'' (JStr ''prediction'') \<notin>
             {JStr ''most_sold'', JStr ''summary'', JStr ''analysis''}"
  shows "dispatch ev self user_query params = prediction_branch ev self user_query params"
  using assms by (simp add: dispatch_def)

lemma prediction_unknown_item:
  assumes "\<not> py_in (dict_get params ''item_id'') (available_items self)"
  shows "guarded (prediction_branch ev self user_query params) =
           (Inr (ItemNotAvailable (dict_get params ''item_id'') (take 10 (available_items self))
                   (10 < length (available_items self))), self, [])"
  using assms by (simp add: prediction_branch_def guarded_def)

lemma prediction_no_date:
  assumes "py_in (dict_get params ''item_id'') (available_items self)"
    and "\<not> truthy (dict_get params ''date'')"
  shows "guarded (prediction_branch ev self user_query params) = (Inr SpecifyDate, self, [])"
  using assms by (simp add: prediction_branch_def guarded_def)

lemma prediction_bad_date:
  assumes "py_in (dict_get params ''item_id'') (available_items self)"
    and "dict_get params ''date'' = JStr s" and "s \<noteq> []" and "strptime_ymd s = Inl e"
  shows "guarded (prediction_branch ev self user_query params) = (Inr InvalidDateFormat, self, [])"
  using assms by (simp add: prediction_branch_def guarded_def validate_date_def)

text \<open>
  C2, as stated, fails when the date is the empty string: the item is valid, the
  string does not parse as YYYY-MM-DD, and the guard of line 430 answers "Please
  specify a date for the prediction." rather than the invalid-format text.
\<close>

theorem empty_date_counterexample:
  "gate empty_date = Inr False
   \<and> dict_get_default empty_date ''query_type'' (JStr ''prediction'') = JStr ''prediction''
   \<and> py_in (dict_get empty_date ''item_id'') (available_items stub_bot)
   \<and> dict_get empty_date ''date'' = JStr ''''
   \<and> strptime_ymd '''' = Inl ValueError
   \<and> handle_query (stub_env [(''q'', JObj empty_date)]) stub_bot ''q''
       = (Inr SpecifyDate, stub_bot, [])
   \<and> SpecifyDate \<noteq> InvalidDateFormat"
  by (simp add: stub_extract handle_query_def handle_parameters_def gate_def dispatch_def
        prediction_branch_def guarded_def dict_get_def dict_get_default_def empty_date_def
        stub_bot_def py_in_def strptime_ymd_def)

text \<open>
  C2, amended. For a record that passes the gate and has query type \<open>prediction\<close>:
  when its item id is not among the available items, \<open>handle_query\<close> returns the
  "not available" text with the first ten available ids at most, and invokes
  nothing; when the item id is valid and the date is absent, null or empty, it
  returns "Please specify a date for the prediction."; when the item id is valid and
  the date is a non-empty string that does not parse as YYYY-MM-DD, it returns the
  invalid-format text. In none of the three cases is \<open>predict_sales\<close> invoked.
\<close>

theorem prediction_validation:
  assumes "extract_parameters ev user_query = JObj params"
    and "gate params = Inr False"
    and "dict_get_default params ''query_type'' (JStr ''prediction'') = JStr ''prediction''"
  shows "(\<not> py_in (dict_get params ''item_id'') (available_items self) \<longrightarrow>
            handle_query ev self user_query =
              (Inr (ItemNotAvailable (dict_get params ''item_id'') (take 10 (available_items self))
                      (10 < length (available_items self))), self, [])
            \<and> length (take 10 (available_items self)) \<le> 10
            \<and> set (take 10 (available_items self)) \<subseteq> set (available_items self))
       \<and> (py_in (dict_get params ''item_id'') (available_items self)
            \<and> \<not> truthy (dict_get params ''date'') \<longrightarrow>
            handle_query ev self user_query = (Inr SpecifyDate, self, []))
       \<and> (\<forall>s. py_in (dict_get params ''item_id'') (available_items self)
            \<and> dict_get params ''date'' = JStr s \<and> s \<noteq> [] \<and> strptime_ymd s = Inl ValueError \<longrightarrow>
            handle_query ev self user_query = (Inr InvalidDateFormat, self, []))"
proof -
  have d: "handle_query ev self user_query = guarded (prediction_branch ev self user_query params)"
    using assms by (simp add: handle_query_open dispatch_prediction)
  show ?thesis
    unfolding d
    by (auto simp: prediction_unknown_item prediction_no_date prediction_bad_date
             dest: set_take_subset [THEN subsetD])
qed

theorem prediction_validation_witness:
  "handle_query (stub_env [(''q'', JObj unknown_item)]) stub_bot ''q''
     = (Inr (ItemNotAvailable (JInt 9) [2, 3] False), stub_bot, [])
   \<and> handle_query (stub_env [(''q'', JObj empty_date)]) stub_bot ''q''
     = (Inr SpecifyDate, stub_bot, [])
   \<and> handle_query (stub_env [(''q'', JObj bad_date)]) stub_bot ''q''
     = (Inr InvalidDateFormat, stub_bot, [])"
proof -
  have g: "gate unknown_item = Inr False" "gate empty_date = Inr False" "gate bad_date = Inr False"
    by (simp_all add: gate_def dict_get_def dict_get_default_def unknown_item_def empty_date_def
          bad_date_def)
  have t: "dict_get_default unknown_item ''query_type'' (JStr ''prediction'') = JStr ''prediction''"
    "dict_get_default empty_date ''query_type'' (JStr ''prediction'') = JStr ''prediction''"
    "dict_get_default bad_date ''query_type'' (JStr ''prediction'') = JStr ''prediction''"
    by (simp_all add: dict_get_default_def unknown_item_def empty_date_def bad_date_def)
  have p: "strptime_ymd ''01/05/2024'' = Inl ValueError"
    by (simp add: strptime_ymd_def)
  show ?thesis
    using prediction_validation [OF stub_extract g(1) t(1), of stub_bot]
      prediction_validation [OF stub_extract g(2) t(2), of stub_bot]
      prediction_validation [OF stub_extract g(3) t(3), of stub_bot] p
    by (simp add: dict_get_def unknown_item_def empty_date_def bad_date_def stub_bot_def py_in_def)
qed

section \<open>Unrecognised query types\<close>

lemma prediction_good_date:
  assumes "py_in (dict_get params ''item_id'') (available_items self)"
    and "dict_get params ''date'' = JStr s" and "strptime_ymd s = Inr d"
  shows "prediction_branch ev self user_query params =
           run_prediction ev self user_query params (dict_get params ''item_id'') s"
proof -
  have "s \<noteq> []" using assms(3) by (auto simp: strptime_ymd_def)
  then show ?thesis using assms by (simp add: prediction_branch_def validate_date_def)
qed

lemma run_prediction_calls:
  "\<exists>cs. snd (snd (guarded (run_prediction ev self user_query params item s)))
          = PredictSales item s # cs"
  by (auto simp: run_prediction_def guarded_def Let_def split: prod.splits sum.splits)

text \<open>
  C10. A record that passes the gate and whose query type is none of \<open>most_sold\<close>,
  \<open>summary\<close>, \<open>analysis\<close> (the key may be absent, or hold any other value, a string
  or not) is handled by the prediction path: an unavailable item id is rejected with
  the "not available" text, a non-empty date that does not parse with the
  invalid-format text, and with an available item and a date that parses
  \<open>predict_sales\<close> is the first operation invoked.
\<close>

theorem other_query_types_are_predictions:
  assumes "extract_parameters ev user_query = JObj params"
    and "gate params = Inr False"
    and "dict_get_default params ''query_type'' (JStr ''prediction'') \<notin>
           {JStr ''most_sold'', JStr ''summary'', JStr ''analysis''}"
  shows "handle_query ev self user_query = guarded (prediction_branch ev self user_query params)
       \<and> (\<not> py_in (dict_get params ''item_id'') (available_items self) \<longrightarrow>
            handle_query ev self user_query =
              (Inr (ItemNotAvailable (dict_get params ''item_id'') (take 10 (available_items self))
                      (10 < length (available_items self))), self, []))
       \<and> (\<forall>s. py_in (dict_get params ''item_id'') (available_items self)
            \<and> dict_get params ''date'' = JStr s \<and> s \<noteq> [] \<and> strptime_ymd s = Inl ValueError \<longrightarrow>
            handle_query ev self user_query = (Inr InvalidDateFormat, self, []))
       \<and> (\<forall>s d. py_in (dict_get params ''item_id'') (available_items self)
            \<and> dict_get params ''date'' = JStr s \<and> strptime_ymd s = Inr d \<longrightarrow>
            (\<exists>cs. snd (snd (handle_query ev self user_query))
                    = PredictSales (dict_get params ''item_id'') s # cs))"
proof -
  have d: "handle_query ev self user_query = guarded (prediction_branch ev self user_query params)"
    using assms by (simp add: handle_query_open dispatch_prediction)
  show ?thesis
    unfolding d
    by (auto simp: prediction_unknown_item prediction_bad_date prediction_good_date
          run_prediction_calls)
qed

theorem other_query_types_are_predictions_witness:
  "handle_query (stub_env [(''q'', JObj odd_query_type)]) stub_bot ''q''
     = (Inr (ItemNotAvailable (JInt 9) [2, 3] False), stub_bot, [])
   \<and> (\<exists>cs. snd (snd (handle_query (stub_env [(''q'', JObj no_query_type)]) stub_bot ''q''))
             = PredictSales (JInt 3) ''2024-05-01'' # cs)"
proof -
  have g: "gate odd_query_type = Inr False" "gate no_query_type = Inr False"
    by (simp_all add: gate_def dict_get_def dict_get_default_def odd_query_type_def
          no_query_type_def)
  have t: "dict_get_default odd_query_type ''query_type'' (JStr ''prediction'') \<notin>
             {JStr ''most_sold'', JStr ''summary'', JStr ''analysis''}"
    "dict_get_default no_query_type ''query_type'' (JStr ''prediction'') \<notin>
             {JStr ''most_sold'', JStr ''summary'', JStr ''analysis''}"
    by (simp_all add: dict_get_default_def odd_query_type_def no_query_type_def)
  have p: "strptime_ymd ''2024-05-01'' = Inr (2024, 5, 1)"
    by code_simp
  note w1 = other_query_types_are_predictions [OF stub_extract g(1) t(1), of stub_bot]
  note w2 = other_query_types_are_predictions [OF stub_extract g(2) t(2), of stub_bot]
  have a: "handle_query (stub_env [(''q'', JObj odd_query_type)]) stub_bot ''q''
             = (Inr (ItemNotAvailable (JInt 9) [2, 3] False), stub_bot, [])"
    using w1 [THEN conjunct2, THEN conjunct1]
    by (simp add: dict_get_def odd_query_type_def stub_bot_def py_in_def)
  have b: "\<exists>cs. snd (snd (handle_query (stub_env [(''q'', JObj no_query_type)]) stub_bot ''q''))
             = PredictSales (JInt 3) ''2024-05-01'' # cs"
    using w2 [THEN conjunct2, THEN conjunct2, THEN conjunct2] p
    by (simp add: dict_get_def no_query_type_def stub_bot_def py_in_def)
  show ?thesis using a b by simp
qed

section \<open>Conversation history\<close>

lemma guarded_state: "fst (snd (guarded out)) = fst (snd out)"
  by (cases out) (auto simp: guarded_def split: sum.splits)

lemma most_sold_branch_state: "fst (snd (most_sold_branch ev self params)) = self"
  by (simp add: most_sold_branch_def)

lemma summary_branch_state: "fst (snd (summary_branch ev self params)) = self"
  by (simp add: summary_branch_def split: sum.splits)

lemma analysis_branch_state: "fst (snd (analysis_branch ev self params)) = self"
  by (simp add: analysis_branch_def split: sum.splits)

lemma run_prediction_state:
  "fst (snd (run_prediction ev self user_query params item s)) =
     (case fst (predict_sales ev item s) of
        Inl e \<Rightarrow> self
      | Inr r \<Rightarrow>
          self\<lparr>conversation_history := conversation_history self @
                 [\<lparr>query = user_query, parameters = params, result = r,
                   response = generate_response ev r user_query params\<rparr>]\<rparr>)"
  by (simp add: run_prediction_def Let_def split: prod.splits sum.splits)

lemma prediction_branch_state:
  "fst (snd (prediction_branch ev self user_query params)) =
     (if py_in (dict_get params ''item_id'') (available_items self)
         \<and> truthy (dict_get params ''date'')
      then (case validate_date (dict_get params ''date'') of
              Inl e \<Rightarrow> self
            | Inr s \<Rightarrow>
                fst (snd (run_prediction ev self user_query params (dict_get params ''item_id'') s)))
      else self)"
  by (simp add: prediction_branch_def Let_def split: sum.splits)

lemma dispatch_state:
  "fst (snd (dispatch ev self user_query params)) =
     (if dict_get_default params ''query_type'' (JStr ''prediction'') \<notin>
           {JStr ''most_sold'', JStr ''summary'', JStr ''analysis''}
      then fst (snd (prediction_branch ev self user_query params))
      else self)"
  by (simp add: dispatch_def Let_def most_sold_branch_state summary_branch_state
        analysis_branch_state)

lemma handle_parameters_state:
  "fst (snd (handle_parameters ev self user_query params)) =
     (if gate params = Inr False
      then fst (snd (dispatch ev self user_query params))
      else self)"
  by (simp add: handle_parameters_def guarded_state split: sum.splits)

lemma handle_query_state:
  "fst (snd (handle_query ev self user_query)) =
     (case executed_prediction ev self user_query of
        None \<Rightarrow> self
      | Some t \<Rightarrow> self\<lparr>conversation_history := conversation_history self @ [t]\<rparr>)"
  by (simp add: handle_query_def executed_prediction_def handle_parameters_state dispatch_state
        prediction_branch_state run_prediction_state split: json.splits sum.splits)

text \<open>
  C9. Handling a query changes nothing of the chatbot but its conversation history,
  and the history afterwards is the history before followed by exactly one turn,
  with the query, its parameters, the result and the response, when the query is an
  executed prediction, and by nothing otherwise. So the history grows by one turn
  if and only if the query is an executed prediction; a \<open>most_sold\<close>, \<open>summary\<close> or
  \<open>analysis\<close> query, a gated query and a query rejected by validation leave it as it
  was; and the turns recorded before stay in place.
\<close>

theorem history_grows_by_executed_predictions_only:
  "conversation_history (fst (snd (handle_query ev self user_query))) =
     conversation_history self @
       (case executed_prediction ev self user_query of None \<Rightarrow> [] | Some t \<Rightarrow> [t])
   \<and> available_items (fst (snd (handle_query ev self user_query))) = available_items self
   \<and> df (fst (snd (handle_query ev self user_query))) = df self
   \<and> take (length (conversation_history self))
        (conversation_history (fst (snd (handle_query ev self user_query))))
       = conversation_history self
   \<and> (length (conversation_history (fst (snd (handle_query ev self user_query))))
        = length (conversation_history self) + 1
      \<longleftrightarrow> executed_prediction ev self user_query \<noteq> None)
   \<and> (executed_prediction ev self user_query = None \<longrightarrow>
        fst (snd (handle_query ev self user_query)) = self)"
  by (simp add: handle_query_state split: option.splits)

theorem history_grows_by_executed_predictions_only_witness:
  "conversation_history
     (fst (snd (handle_query (stub_env [(''q'', JObj no_query_type)]) stub_bot ''q'')))
     = [\<lparr>query = ''q'', parameters = no_query_type, result = ActualPredicted 42 40,
         response = Generated ''ok''\<rparr>]
   \<and> fst (snd (handle_query (stub_env [(''q'', JObj summary_may)]) stub_bot ''q'')) = stub_bot
   \<and> fst (snd (handle_query (stub_env [(''q'', JObj low_confidence)]) stub_bot ''q'')) = stub_bot
   \<and> fst (snd (handle_query (stub_env [(''q'', JObj unknown_item)]) stub_bot ''q'')) = stub_bot"
proof -
  have p: "strptime_ymd ''2024-05-01'' = Inr (2024, 5, 1)"
    by code_simp
  have a: "executed_prediction (stub_env [(''q'', JObj no_query_type)]) stub_bot ''q''
             = Some \<lparr>query = ''q'', parameters = no_query_type, result = ActualPredicted 42 40,
                     response = Generated ''ok''\<rparr>"
    unfolding executed_prediction_def stub_extract
    by (simp add: p gate_def dict_get_def dict_get_default_def no_query_type_def stub_bot_def
          py_in_def validate_date_def predict_sales_def stub_env_def stub_rows_def
          features_for_prediction_def py_round_def generate_response_def strip_def is_space_def)
  have b: "executed_prediction (stub_env [(''q'', JObj summary_may)]) stub_bot ''q'' = None"
    unfolding executed_prediction_def stub_extract
    by (simp add: dict_get_default_def summary_may_def)
  have c: "executed_prediction (stub_env [(''q'', JObj low_confidence)]) stub_bot ''q'' = None"
    unfolding executed_prediction_def stub_extract
    by (simp add: gate_def dict_get_default_def low_confidence_def)
  have d: "executed_prediction (stub_env [(''q'', JObj unknown_item)]) stub_bot ''q'' = None"
    unfolding executed_prediction_def stub_extract
    by (simp add: dict_get_def unknown_item_def stub_bot_def py_in_def)
  have h: "conversation_history stub_bot = []"
    by (simp add: stub_bot_def)
  show ?thesis
    using history_grows_by_executed_predictions_only
            [of "stub_env [(''q'', JObj no_query_type)]" stub_bot "''q''"]
      history_grows_by_executed_predictions_only
            [of "stub_env [(''q'', JObj summary_may)]" stub_bot "''q''"]
      history_grows_by_executed_predictions_only
            [of "stub_env [(''q'', JObj low_confidence)]" stub_bot "''q''"]
      history_grows_by_executed_predictions_only
            [of "stub_env [(''q'', JObj unknown_item)]" stub_bot "''q''"]
    by (simp add: a b c d h)
qed

section \<open>Fail-soft extraction\<close>

lemma fallback_fields:
  "dict_get fallback_parameters ''query_type'' = JStr ''prediction''"
  "dict_get fallback_parameters ''confidence'' = JFloat 0"
  "dict_get fallback_parameters ''missing_info'' = JArr [JStr ''item_id'', JStr ''date'']"
  "map_of fallback_parameters ''clarification_needed'' =
     Some (JStr ''I couldn't understand your request. Please specify the item ID and date for sales prediction.'')"
  by (simp_all add: dict_get_def fallback_parameters_def)

text \<open>
  \<open>extract_parameters\<close> is a total function to a value: every exception of its
  \<^verbatim>\<open>try\<close> block is caught by the \<^verbatim>\<open>except Exception\<close> clause. When the call to the
  text-understanding service raises, or its reply has no content, or
  \<^verbatim>\<open>json.loads\<close> fails on the stripped content and the content either has no
  brace-delimited span or \<^verbatim>\<open>json.loads\<close> fails on that span too, the value returned
  is the fallback record: query type \<open>prediction\<close>, confidence 0.0, \<open>missing_info\<close>
  holding exactly \<open>item_id\<close> and \<open>date\<close>, and a clarification prompt.
\<close>

lemma unparsable_reply_gives_fallback:
  assumes "isl (chat_extract ev user_query)
         \<or> chat_extract ev user_query = Inr None
         \<or> (\<exists>c. chat_extract ev user_query = Inr (Some c)
               \<and> isl (json_loads ev (strip c))
               \<and> (case brace_span (strip c) of
                     None \<Rightarrow> True
                   | Some json_match \<Rightarrow> isl (json_loads ev json_match)))"
  shows "extract_parameters ev user_query = JObj fallback_parameters
       \<and> dict_get fallback_parameters ''query_type'' = JStr ''prediction''
       \<and> dict_get fallback_parameters ''confidence'' = JFloat 0
       \<and> dict_get fallback_parameters ''missing_info'' = JArr [JStr ''item_id'', JStr ''date'']
       \<and> map_of fallback_parameters ''clarification_needed'' =
           Some (JStr ''I couldn't understand your request. Please specify the item ID and date for sales prediction.'')"
proof -
  have "isl (extract_try ev user_query)"
    using assms
    by (auto simp: extract_try_def Let_def isl_def split: sum.splits option.splits)
  then have "extract_parameters ev user_query = JObj fallback_parameters"
    by (auto simp: extract_parameters_def isl_def)
  then show ?thesis
    by (simp add: fallback_fields)
qed

lemma unparsable_reply_gives_fallback_example:
  "extract_parameters (stub_env []) ''item 3 please'' = JObj fallback_parameters
   \<and> extract_parameters ((stub_env [])\<lparr>chat_extract := \<lambda>q. Inl CollaboratorError\<rparr>)
        ''item 3 please'' = JObj fallback_parameters"
proof -
  have a: "\<exists>c. chat_extract (stub_env []) ''item 3 please'' = Inr (Some c)
               \<and> isl (json_loads (stub_env []) (strip c))
               \<and> (case brace_span (strip c) of
                     None \<Rightarrow> True
                   | Some json_match \<Rightarrow> isl (json_loads (stub_env []) json_match))"
    by (simp add: stub_env_def strip_def is_space_def brace_span_def)
  have b: "isl (chat_extract ((stub_env [])\<lparr>chat_extract := \<lambda>q. Inl CollaboratorError\<rparr>)
             ''item 3 please'')"
    by simp
  show ?thesis
    using unparsable_reply_gives_fallback [OF disjI2 [OF disjI2 [OF a]]]
      unparsable_reply_gives_fallback [OF disjI1 [OF b]]
    by simp
qed

text \<open>
  C6 says that whenever no structured object can be recovered from the reply of
  the text-understanding service, \<open>extract_parameters\<close> returns the fallback record.
  The code does so only when \<^verbatim>\<open>json.loads\<close> raises. On a reply that is valid JSON
  but not an object, here the content \<^verbatim>\<open>5\<close>, line 292 returns the parsed value as
  it is: \<open>extract_parameters\<close> yields the number 5, which is not the fallback record
  and no record at all, and \<open>handle_query\<close> then raises an \<^verbatim>\<open>AttributeError\<close> at
  \<^verbatim>\<open>parameters.get\<close> (line 378), outside its \<^verbatim>\<open>try\<close> block.
\<close>

theorem scalar_reply_is_returned_unchecked:
  "chat_extract (stub_env [(''5'', JInt 5)]) ''5'' = Inr (Some ''5'')
   \<and> json_loads (stub_env [(''5'', JInt 5)]) ''5'' = Inr (JInt 5)
   \<and> extract_parameters (stub_env [(''5'', JInt 5)]) ''5'' = JInt 5
   \<and> extract_parameters (stub_env [(''5'', JInt 5)]) ''5'' \<noteq> JObj fallback_parameters
   \<and> handle_query (stub_env [(''5'', JInt 5)]) stub_bot ''5'' = (Inl AttributeError, stub_bot, [])"
  by (simp add: handle_query_def extract_parameters_def extract_try_def stub_env_def strip_def
        is_space_def)

section \<open>Empty results\<close>








lemma validated_item_is_scalar:
  "py_in item_id items \<Longrightarrow> series_eq item_id = Inr (num_eq item_id)"
  by (cases item_id) (auto simp: py_in_def list_ex_iff)

text \<open>
  C8. Let the model file and the data file be loaded, let the item id be validated
  (a member of some list of available ids) and the date parse as YYYY-MM-DD. When no
  row of the data has that item id and that date, \<open>predict_sales\<close> returns the "No
  historical data found" text for the pair as its value: no exception is raised and
  the regression model is not called.
\<close>

theorem missing_history_is_a_normal_result:
  assumes "load_files ev = Loaded rows"
    and "py_in item_id items"
    and "strptime_ymd date_str = Inr input_date"
    and "\<forall>r \<in> set rows. \<not> (num_eq item_id (ITEMID_Mapped r) \<and> ORDERDATE r = input_date)"
  shows "predict_sales ev item_id date_str = (Inr (NoHistoricalData item_id date_str), [])"
proof -
  have "filter (\<lambda>r. num_eq item_id (ITEMID_Mapped r) \<and> ORDERDATE r = input_date) rows = []"
    using assms(4) by (simp add: filter_empty_conv)
  then show ?thesis
    using assms(1,3) validated_item_is_scalar [OF assms(2)]
    by (simp add: predict_sales_def)
qed

theorem missing_history_is_a_normal_result_witness:
  "predict_sales (stub_env []) (JInt 3) ''2024-06-01''
     = (Inr (NoHistoricalData (JInt 3) ''2024-06-01''), [])"
proof -
  have l: "load_files (stub_env []) = Loaded stub_rows"
    by (simp add: stub_env_def)
  have i: "py_in (JInt 3) [2, 3]"
    by (simp add: py_in_def)
  have p: "strptime_ymd ''2024-06-01'' = Inr (2024, 6, 1)"
    by code_simp
  have n: "\<forall>r \<in> set stub_rows. \<not> (num_eq (JInt 3) (ITEMID_Mapped r) \<and> ORDERDATE r = (2024, 6, 1))"
    by (simp add: stub_rows_def)
  show ?thesis
    using missing_history_is_a_normal_result [OF l i p n] by simp
qed

section \<open>Facts about strings\<close>

lemma digit_char_digit: "n < 10 \<Longrightarrow> is_digit (digit_char n)"
proof -
  have "\<forall>k \<in> set [0..<10]. is_digit (digit_char k)"
    by (simp add: digit_char_def is_digit_def upt_rec)
  then show "n < 10 \<Longrightarrow> is_digit (digit_char n)" by simp
qed

lemma digit_val_char: "n < 10 \<Longrightarrow> digit_val (digit_char n) = int n"
proof -
  have "\<forall>k \<in> set [0..<10]. digit_val (digit_char k) = int k"
    by (simp add: digit_char_def digit_val_def upt_rec)
  then show "n < 10 \<Longrightarrow> digit_val (digit_char n) = int n" by simp
qed

lemma digit_not_special:
  assumes "is_digit c"
  shows "c \<noteq> CHR ''-''" and "c \<noteq> CHR ''+''" and "c \<noteq> CHR ''m''" and "\<not> is_space c"
  using assms by (auto simp: is_digit_def is_space_def)

lemma dash_not_digit: "\<not> is_digit CHR ''-''"
  by (simp add: is_digit_def)

lemma digit_lower: "is_digit c \<Longrightarrow> lower_char c = c"
proof -
  have "\<forall>d \<in> set ''0123456789''. lower_char d = d"
    by (simp add: lower_char_def)
  then show "is_digit c \<Longrightarrow> lower_char c = c"
    unfolding is_digit_def by blast
qed

lemma digits_lower: "list_all is_digit s \<Longrightarrow> lower s = s"
  by (simp add: lower_def list_all_iff digit_lower map_idI)

lemma lower_append: "lower (a @ b) = lower a @ lower b"
  by (simp add: lower_def)

lemma lower_dash: "lower (CHR ''-'' # s) = CHR ''-'' # lower s"
  by (simp add: lower_def lower_char_def)

lemma strip_id:
  assumes "s \<noteq> []" and "\<not> is_space (hd s)" and "\<not> is_space (last s)"
  shows "strip s = s"
proof -
  have "dropWhile is_space s = s"
    using assms by (simp add: dropWhile_eq_self_iff)
  moreover have "dropWhile is_space (rev s) = rev s"
    using assms by (simp add: dropWhile_eq_self_iff hd_rev)
  ultimately show ?thesis by (simp add: strip_def)
qed

lemma contains_subset: "contains sub s \<Longrightarrow> set sub \<subseteq> set s"
proof (induction s)
  case Nil
  then show ?case by simp
next
  case (Cons c cs)
  from Cons.prems have "take (length sub) (c # cs) = sub \<or> contains sub cs" by simp
  then show ?case
  proof
    assume "take (length sub) (c # cs) = sub"
    then have "set sub = set (take (length sub) (c # cs))" by simp
    then show ?thesis using set_take_subset by fast
  next
    assume "contains sub cs"
    then show ?thesis using Cons.IH by auto
  qed
qed

lemma split_on_plain: "sep \<notin> set s \<Longrightarrow> split_on sep s = [s]"
  by (induction s) auto

lemma split_on_append:
  "sep \<notin> set a \<Longrightarrow> split_on sep (a @ sep # b) = a # split_on sep b"
  by (induction a) auto

lemma digits12_dash_ok:
  assumes "list_all is_digit d" and "length d = 1 \<or> length d = 2"
  shows "digits12_dash (d @ CHR ''-'' # r) = Some r"
proof -
  from assms(2) consider a where "d = [a]" | a b where "d = [a, b]"
    by (cases d; cases "tl d"; cases "tl (tl d)") auto
  then show ?thesis
  proof cases
    case 1
    then show ?thesis using assms(1) dash_not_digit by (cases r) auto
  next
    case 2
    then show ?thesis using assms(1) by auto
  qed
qed

text \<open>The pieces of a numeric date: digit strings separated by dashes.\<close>

lemma dashed_plain:
  assumes "list_all is_digit a" and "list_all is_digit b" and "list_all is_digit c"
    and "a \<noteq> []" and "c \<noteq> []"
  shows "strip (lower (a @ ''-'' @ b @ ''-'' @ c)) = a @ ''-'' @ b @ ''-'' @ c"
    and "\<not> contains ''may'' (a @ ''-'' @ b @ ''-'' @ c)"
    and "split_on CHR ''-'' (a @ ''-'' @ b @ ''-'' @ c) = [a, b, c]"
proof -
  let ?s = "a @ ''-'' @ b @ ''-'' @ c"
  have l: "lower ?s = ?s"
    using assms(1-3) by (simp add: lower_append lower_dash digits_lower)
  have h: "is_digit (hd ?s)" using assms(1,4) by (cases a) auto
  have t: "is_digit (last ?s)" using assms(3,5) by (cases c rule: rev_cases) auto
  show "strip (lower ?s) = ?s"
    unfolding l using h t assms(4) by (intro strip_id) (auto simp: digit_not_special)
  have "CHR ''m'' \<notin> set ?s"
    using assms(1-3) by (auto simp: list_all_iff dest: digit_not_special(3))
  then show "\<not> contains ''may'' ?s"
    using contains_subset [of "''may''" ?s] by auto
  have n: "CHR ''-'' \<notin> set a" "CHR ''-'' \<notin> set b" "CHR ''-'' \<notin> set c"
    using assms(1-3) by (auto simp: list_all_iff dest: digit_not_special(1))
  show "split_on CHR ''-'' ?s = [a, b, c]"
    using n by (simp add: split_on_append split_on_plain)
qed

lemma dmy_string:
  assumes "list_all is_digit d" and "length d = 1 \<or> length d = 2"
    and "list_all is_digit m" and "length m = 1 \<or> length m = 2"
    and "list_all is_digit y" and "length y = 4"
  shows "parse_date_input cy (d @ ''-'' @ m @ ''-'' @ y) = [y @ ''-'' @ zfill 2 m @ ''-'' @ zfill 2 d]"
proof -
  let ?s = "d @ ''-'' @ m @ ''-'' @ y"
  have ne: "d \<noteq> []" "y \<noteq> []" using assms(2,6) by auto
  note p = dashed_plain [OF assms(1,3,5) ne]
  have r: "re_match_dmy ?s"
    using assms by (simp add: re_match_dmy_def digits12_dash_ok)
  have "dmy_dates ?s = Some [y @ ''-'' @ zfill 2 m @ ''-'' @ zfill 2 d]"
    using r p(3) by (simp add: dmy_dates_def)
  moreover have "?s \<noteq> []" using ne by simp
  ultimately show ?thesis
    using p(1,2) by (simp add: parse_date_input_def Let_def)
qed


section \<open>Decimal numerals\<close>

lemma str_nat_1: "n < 10 \<Longrightarrow> str_nat n = [digit_char n]"
  by (subst str_nat.simps) simp

lemma str_nat_2:
  "10 \<le> n \<Longrightarrow> n < 100 \<Longrightarrow> str_nat n = [digit_char (n div 10), digit_char (n mod 10)]"
  by (subst str_nat.simps) (simp add: str_nat_1)

lemma length_str_nat_step: "10 \<le> n \<Longrightarrow> length (str_nat n) = Suc (length (str_nat (n div 10)))"
  by (subst str_nat.simps) simp

lemma str_nat_4:
  assumes "1000 \<le> n" and "n < 10000"
  shows "length (str_nat n) = 4"
proof -
  have a: "100 \<le> n div 10" "n div 10 < 1000" using assms by arith+
  have b: "10 \<le> n div 10 div 10" "n div 10 div 10 < 100" using a by arith+
  have c: "n div 10 div 10 div 10 < 10" using b by arith
  have "length (str_nat n) = Suc (length (str_nat (n div 10)))"
    using assms by (simp add: length_str_nat_step)
  also have "length (str_nat (n div 10)) = Suc (length (str_nat (n div 10 div 10)))"
    using a by (simp add: length_str_nat_step)
  also have "length (str_nat (n div 10 div 10)) = Suc (length (str_nat (n div 10 div 10 div 10)))"
    using b by (simp add: length_str_nat_step)
  also have "length (str_nat (n div 10 div 10 div 10)) = 1"
    using c by (simp add: str_nat_1)
  finally show ?thesis by simp
qed

lemma str_nat_digits: "list_all is_digit (str_nat n)"
proof (induction n rule: str_nat.induct)
  case (1 n)
  show ?case
  proof (cases "n < 10")
    case True
    then show ?thesis by (subst str_nat.simps) (simp add: digit_char_digit)
  next
    case False
    then have "list_all is_digit (str_nat (n div 10))" using 1 by simp
    then show ?thesis using False
      by (subst str_nat.simps) (simp add: digit_char_digit)
  qed
qed

lemma int_of_digits_snoc: "int_of_digits (ds @ [c]) = 10 * int_of_digits ds + digit_val c"
  by (simp add: int_of_digits_def)

lemma int_of_digits_str_nat: "int_of_digits (str_nat n) = int n"
proof (induction n rule: str_nat.induct)
  case (1 n)
  show ?case
  proof (cases "n < 10")
    case True
    then show ?thesis
      by (subst str_nat.simps) (simp add: int_of_digits_def digit_val_char)
  next
    case False
    then have "int_of_digits (str_nat (n div 10)) = int (n div 10)" using 1 by simp
    then show ?thesis using False
      by (subst str_nat.simps) (simp add: int_of_digits_snoc digit_val_char zdiv_int zmod_int)
  qed
qed

text \<open>A day or month number below 100, written plainly or on two digits.\<close>

lemma small_number:
  assumes "0 \<le> i" and "i < 100"
  shows "list_all is_digit (str_int i)" and "length (str_int i) = 1 \<or> length (str_int i) = 2"
    and "zfill 2 (str_int i) = fmt_02d i"
    and "list_all is_digit (fmt_02d i)" and "length (fmt_02d i) = 2"
    and "zfill 2 (fmt_02d i) = fmt_02d i"
proof -
  have s: "str_int i = str_nat (nat i)" using assms by (simp add: str_int_def)
  show d: "list_all is_digit (str_int i)" by (simp add: s str_nat_digits)
  show l: "length (str_int i) = 1 \<or> length (str_int i) = 2"
  proof (cases "i < 10")
    case True
    then show ?thesis using assms by (simp add: s str_nat_1)
  next
    case False
    then show ?thesis using assms by (simp add: s str_nat_2)
  qed
  show z: "zfill 2 (str_int i) = fmt_02d i"
  proof (cases "i < 10")
    case True
    then have "str_int i = [digit_char (nat i)]" using assms by (simp add: s str_nat_1)
    moreover have "is_digit (digit_char (nat i))" using True assms by (simp add: digit_char_digit)
    ultimately show ?thesis
      using True assms by (simp add: zfill_def fmt_02d_def digit_not_special)
  next
    case False
    then have "length (str_int i) = 2" using assms by (simp add: s str_nat_2)
    then show ?thesis using False by (simp add: zfill_def fmt_02d_def)
  qed
  show "list_all is_digit (fmt_02d i)"
    using d by (simp add: fmt_02d_def is_digit_def)
  show f: "length (fmt_02d i) = 2"
  proof (cases "i < 10")
    case True
    then show ?thesis using assms by (simp add: fmt_02d_def s str_nat_1)
  next
    case False
    then show ?thesis using assms by (simp add: fmt_02d_def s str_nat_2)
  qed
  show "zfill 2 (fmt_02d i) = fmt_02d i"
    using f by (simp add: zfill_def)
qed

lemma four_digit_year:
  assumes "1000 \<le> y" and "y \<le> 9999"
  shows "list_all is_digit (str_int y)" and "length (str_int y) = 4"
    and "zfill 4 (str_int y) = str_int y" and "int_of_digits (str_int y) = y"
proof -
  have s: "str_int y = str_nat (nat y)" using assms by (simp add: str_int_def)
  show "list_all is_digit (str_int y)" by (simp add: s str_nat_digits)
  show l: "length (str_int y) = 4" using assms by (simp add: s str_nat_4)
  show "zfill 4 (str_int y) = str_int y" using l by (simp add: zfill_def)
  show "int_of_digits (str_int y) = y" using assms by (simp add: s int_of_digits_str_nat)
qed

section \<open>Canonical dates\<close>

lemma month_cases: "1 \<le> m \<Longrightarrow> m \<le> 12 \<Longrightarrow> m \<in> {1, 2, 3, 4, 5, 6, 7, 8, 9, 10, 11, 12::int}"
  by simp arith

lemma monthrange_days_gregorian:
  assumes "1 \<le> m" and "m \<le> 12"
  shows "monthrange_days y m = Inr (gregorian_month_length y m)"
  using month_cases [OF assms]
  by (elim insertE emptyE; simp add: monthrange_days_def mdays_def isleap_def
        gregorian_month_length_def)

lemma gregorian_month_length_bounds:
  "28 \<le> gregorian_month_length y m" "gregorian_month_length y m \<le> 31"
  by (simp_all add: gregorian_month_length_def)

lemma month_tokens:
  assumes "1 \<le> m" and "m \<le> 12"
  shows "month_token (fmt_02d m) = Some m"
proof -
  have "\<forall>k \<in> set [1..12]. month_token (fmt_02d k) = Some k"
    by code_simp
  then show ?thesis using assms by simp
qed

lemma day_tokens:
  assumes "1 \<le> d" and "d \<le> 31"
  shows "day_token (fmt_02d d) = Some d"
proof -
  have "\<forall>k \<in> set [1..31]. day_token (fmt_02d k) = Some k"
    by code_simp
  then show ?thesis using assms by simp
qed

lemma valid_date_bounds:
  assumes "valid_date (y, m, d)"
  shows "1 \<le> m" and "m \<le> 12" and "1 \<le> d" and "d \<le> 31"
proof -
  show m: "1 \<le> m" "m \<le> 12"
    using assms by (auto simp: valid_date_def monthrange_days_def split: if_splits)
  have "monthrange_days y m = Inr (gregorian_month_length y m)"
    using m by (rule monthrange_days_gregorian)
  then show "1 \<le> d" "d \<le> 31"
    using assms gregorian_month_length_bounds(2) [of y m]
    by (auto simp: valid_date_def)
qed

lemma year_not_dmy:
  assumes "list_all is_digit y" and "length y = 4"
  shows "\<not> re_match_dmy (y @ r)"
proof -
  obtain a b c e where "y = [a, b, c, e]"
    using assms(2) by (cases y; cases "tl y"; cases "tl (tl y)"; cases "tl (tl (tl y))") auto
  then show ?thesis
    using assms(1) dash_not_digit by (auto simp: re_match_dmy_def)
qed

lemma canonical_string:
  assumes "1000 \<le> y" and "y \<le> 9999" and "valid_date (y, m, d)"
  shows "parse_date_input cy (strftime_ymd (y, m, d)) = [strftime_ymd (y, m, d)]"
proof -
  note b = valid_date_bounds [OF assms(3)]
  note yy = four_digit_year [OF assms(1,2)]
  have mm: "list_all is_digit (fmt_02d m)" "length (fmt_02d m) = 2"
    using b by (simp_all add: small_number)
  have dd: "list_all is_digit (fmt_02d d)" "length (fmt_02d d) = 2"
    using b by (simp_all add: small_number)
  let ?s = "str_int y @ ''-'' @ fmt_02d m @ ''-'' @ fmt_02d d"
  have s: "strftime_ymd (y, m, d) = ?s"
    by (simp add: strftime_ymd_def yy(3))
  have ne: "str_int y \<noteq> []" "fmt_02d d \<noteq> []" using yy(2) dd(2) by auto
  note p = dashed_plain [OF yy(1) mm(1) dd(1) ne]
  have "dmy_dates ?s = None"
    using year_not_dmy [OF yy(1,2)] by (simp add: dmy_dates_def)
  moreover have "strptime_ymd ?s = Inr (y, m, d)"
    using p(3) yy assms(3) b by (simp add: strptime_ymd_def month_tokens day_tokens)
  moreover have "?s \<noteq> []" using ne by simp
  ultimately show ?thesis
    unfolding s using p(1,2) by (simp add: parse_date_input_def Let_def s)
qed

text \<open>
  C5. For every day \<open>d\<close> from 1 to 31, month \<open>m\<close> from 1 to 12 and four-digit year
  \<open>y\<close>, the date normalizer maps the numeric string "d-m-y", with day and month
  written plainly or on two digits, to the single date "y-mm-dd": the first number
  is the day, the second the month. When (y, m, d) is a date of the calendar, the
  canonical string "y-mm-dd" is mapped to itself, so both phrasings of the date give
  the same canonical string.
\<close>

theorem day_first_dates_are_canonical:
  assumes "1 \<le> d" and "d \<le> 31" and "1 \<le> m" and "m \<le> 12" and "1000 \<le> y" and "y \<le> 9999"
  shows "parse_date_input cy (str_int d @ ''-'' @ str_int m @ ''-'' @ str_int y)
           = [strftime_ymd (y, m, d)]
       \<and> parse_date_input cy (fmt_02d d @ ''-'' @ fmt_02d m @ ''-'' @ str_int y)
           = [strftime_ymd (y, m, d)]
       \<and> strftime_ymd (y, m, d) = str_int y @ ''-'' @ fmt_02d m @ ''-'' @ fmt_02d d
       \<and> (valid_date (y, m, d) \<longrightarrow>
            parse_date_input cy (strftime_ymd (y, m, d)) = [strftime_ymd (y, m, d)])"
proof -
  have d: "0 \<le> d" "d < 100" and m: "0 \<le> m" "m < 100" using assms by auto
  note sd = small_number [OF d] and sm = small_number [OF m]
  note yy = four_digit_year [OF assms(5,6)]
  have s: "strftime_ymd (y, m, d) = str_int y @ ''-'' @ fmt_02d m @ ''-'' @ fmt_02d d"
    by (simp add: strftime_ymd_def yy(3))
  have "parse_date_input cy (str_int d @ ''-'' @ str_int m @ ''-'' @ str_int y)
          = [strftime_ymd (y, m, d)]"
    using dmy_string [OF sd(1,2) sm(1,2) yy(1,2)] by (simp add: s sd(3) sm(3))
  moreover have "parse_date_input cy (fmt_02d d @ ''-'' @ fmt_02d m @ ''-'' @ str_int y)
          = [strftime_ymd (y, m, d)]"
    using dmy_string [OF sd(4) _ sm(4) _ yy(1,2)] by (simp add: s sd(5,6) sm(5,6))
  moreover have "valid_date (y, m, d) \<longrightarrow>
      parse_date_input cy (strftime_ymd (y, m, d)) = [strftime_ymd (y, m, d)]"
    using canonical_string [OF assms(5,6)] by blast
  ultimately show ?thesis
    using s by blast
qed

theorem day_first_dates_are_canonical_witness:
  "parse_date_input 2026 ''4-5-2024'' = [''2024-05-04'']
   \<and> parse_date_input 2026 ''04-05-2024'' = [''2024-05-04'']
   \<and> parse_date_input 2026 ''2024-05-04'' = [''2024-05-04'']"
proof -
  have e: "str_int 4 = ''4''" "str_int 5 = ''5''" "str_int 2024 = ''2024''"
    "fmt_02d 4 = ''04''" "fmt_02d 5 = ''05''" "strftime_ymd (2024, 5, 4) = ''2024-05-04''"
    by code_simp+
  have v: "valid_date (2024, 5, 4)"
    by code_simp
  show ?thesis
    using day_first_dates_are_canonical [of 4 5 2024 2026] v
    by (simp add: e)
qed

section \<open>Month expansion\<close>

lemma guarded_calls: "snd (snd (guarded out)) = snd (snd out)"
  by (cases out) (auto simp: guarded_def split: sum.splits)

lemma month_dates_length:
  assumes "1 \<le> m" and "m \<le> 12"
  shows "\<exists>ds. month_dates (JInt y) (JInt m) = Inr ds
            \<and> int (length ds) = gregorian_month_length y m"
  using gregorian_month_length_bounds(1) [of y m]
  by (simp add: month_dates_def monthrange_days_gregorian [OF assms])

lemma may_dates_length: "length (may_dates cy s) = 31"
  by (simp add: may_dates_def Let_def)

lemma parse_may:
  assumes "s \<noteq> []" and "contains ''may'' (strip (lower s))"
  shows "parse_date_input cy s = may_dates cy (strip (lower s))"
  using assms by (simp add: parse_date_input_def Let_def)

lemma parse_other:
  assumes "\<not> contains ''may'' (strip (lower s))"
  shows "length (parse_date_input cy s) \<le> 1"
  using assms
  by (auto simp: parse_date_input_def Let_def dmy_dates_def
           split: option.splits sum.splits list.splits if_splits)

lemma expansion_calls:
  assumes "extract_parameters ev user_query = JObj params"
    and "gate params = Inr False"
    and "dict_get_default params ''query_type'' (JStr ''prediction'') = JStr ''summary''
         \<or> dict_get_default params ''query_type'' (JStr ''prediction'') = JStr ''analysis''"
    and "dict_get params ''month'' = JInt m" and "m \<noteq> 0"
    and "year_of ev params = JInt y" and "y \<noteq> 0"
    and "month_dates (JInt y) (JInt m) = Inr ds"
  shows "snd (snd (handle_query ev self user_query))
           = [GetSalesSummary (dict_get params ''item_id'') (Some ds)]"
  using assms(3-)
  unfolding handle_query_open [OF assms(1,2)] guarded_calls
  by (auto simp: dispatch_def summary_branch_def summary_dates_def analysis_branch_def)

text \<open>
  C3, as stated, fails for the date normalizer: it knows no month but May, so
  "whole february 2024" is not expanded to the 29 days of February 2024 but yields
  no date at all.
\<close>

theorem february_counterexample:
  "gregorian_month_length 2024 2 = 29
   \<and> parse_date_input 2026 ''whole february 2024'' = []
   \<and> length (parse_date_input 2026 ''whole february 2024'') \<noteq> 29"
proof -
  have "parse_date_input 2026 ''whole february 2024'' = []"
    by code_simp
  then show ?thesis
    by (simp add: gregorian_month_length_def)
qed

text \<open>
  C3, amended. For every year \<open>y\<close> and every month \<open>m\<close> from 1 to 12, the month-to-dates
  expansion of the dispatcher has exactly as many entries as the month has days in
  that year (29 for February 2024, 28 for February 2023), and a gate-passing
  \<open>summary\<close> or \<open>analysis\<close> query with that month and a non-zero year passes exactly
  this list to \<open>get_sales_summary\<close>. The date normalizer expands a phrase only when
  it contains "may", always to 31 entries, the number of days of May; a phrase
  that names another month is not expanded, and gives one date at most.
\<close>

theorem month_expansion_lengths:
  assumes "1 \<le> m" and "m \<le> 12"
  shows "(\<exists>ds. month_dates (JInt y) (JInt m) = Inr ds
            \<and> int (length ds) = gregorian_month_length y m
            \<and> (extract_parameters ev user_query = JObj params
               \<and> gate params = Inr False
               \<and> (dict_get_default params ''query_type'' (JStr ''prediction'') = JStr ''summary''
                  \<or> dict_get_default params ''query_type'' (JStr ''prediction'') = JStr ''analysis'')
               \<and> dict_get params ''month'' = JInt m
               \<and> year_of ev params = JInt y \<and> y \<noteq> 0
               \<longrightarrow> snd (snd (handle_query ev self user_query))
                     = [GetSalesSummary (dict_get params ''item_id'') (Some ds)]))
       \<and> (s \<noteq> [] \<and> contains ''may'' (strip (lower s)) \<longrightarrow>
            int (length (parse_date_input cy s)) = gregorian_month_length y 5)
       \<and> (\<not> contains ''may'' (strip (lower s)) \<longrightarrow> length (parse_date_input cy s) \<le> 1)"
proof -
  obtain ds where ds: "month_dates (JInt y) (JInt m) = Inr ds"
      "int (length ds) = gregorian_month_length y m"
    using month_dates_length [OF assms] by blast
  have m: "m \<noteq> 0" using assms by simp
  have a: "extract_parameters ev user_query = JObj params
               \<and> gate params = Inr False
               \<and> (dict_get_default params ''query_type'' (JStr ''prediction'') = JStr ''summary''
                  \<or> dict_get_default params ''query_type'' (JStr ''prediction'') = JStr ''analysis'')
               \<and> dict_get params ''month'' = JInt m
               \<and> year_of ev params = JInt y \<and> y \<noteq> 0
               \<longrightarrow> snd (snd (handle_query ev self user_query))
                     = [GetSalesSummary (dict_get params ''item_id'') (Some ds)]"
    using expansion_calls [OF _ _ _ _ m _ _ ds(1)] by blast
  have b: "s \<noteq> [] \<and> contains ''may'' (strip (lower s)) \<longrightarrow>
            int (length (parse_date_input cy s)) = gregorian_month_length y 5"
    by (simp add: parse_may may_dates_length gregorian_month_length_def)
  show ?thesis
    using ds a b parse_other by blast
qed

theorem month_expansion_lengths_witness:
  "(\<exists>ds. length ds = 29
        \<and> snd (snd (handle_query (stub_env [(''q'', JObj summary_feb_2024)]) stub_bot ''q''))
            = [GetSalesSummary JNull (Some ds)])
   \<and> (\<exists>ds. length ds = 28
        \<and> snd (snd (handle_query (stub_env [(''q'', JObj analysis_feb_2023)]) stub_bot ''q''))
            = [GetSalesSummary JNull (Some ds)])
   \<and> length (parse_date_input 2026 ''whole may 2024'') = 31
   \<and> length (parse_date_input 2026 ''whole february 2024'') \<le> 1"
proof -
  have g: "gate summary_feb_2024 = Inr False" "gate analysis_feb_2023 = Inr False"
    by (simp_all add: gate_def dict_get_def dict_get_default_def summary_feb_2024_def
          analysis_feb_2023_def)
  have p: "dict_get_default summary_feb_2024 ''query_type'' (JStr ''prediction'') = JStr ''summary''"
    "dict_get summary_feb_2024 ''month'' = JInt 2"
    "year_of (stub_env [(''q'', JObj summary_feb_2024)]) summary_feb_2024 = JInt 2024"
    "dict_get summary_feb_2024 ''item_id'' = JNull"
    by (simp_all add: dict_get_def dict_get_default_def year_of_def summary_feb_2024_def)
  have q: "dict_get_default analysis_feb_2023 ''query_type'' (JStr ''prediction'') = JStr ''analysis''"
    "dict_get analysis_feb_2023 ''month'' = JInt 2"
    "year_of (stub_env [(''q'', JObj analysis_feb_2023)]) analysis_feb_2023 = JInt 2023"
    "dict_get analysis_feb_2023 ''item_id'' = JNull"
    by (simp_all add: dict_get_def dict_get_default_def year_of_def analysis_feb_2023_def)
  have l: "gregorian_month_length 2024 2 = 29" "gregorian_month_length 2023 2 = 28"
    "gregorian_month_length 2024 5 = 31"
    by (simp_all add: gregorian_month_length_def)
  have c: "contains ''may'' (strip (lower ''whole may 2024''))"
    "\<not> contains ''may'' (strip (lower ''whole february 2024''))"
    by code_simp+
  have "(2::int) \<le> 12" "(1::int) \<le> 2" by simp_all
  note w1 = month_expansion_lengths [OF \<open>(1::int) \<le> 2\<close> \<open>(2::int) \<le> 12\<close>,
      of 2024 "stub_env [(''q'', JObj summary_feb_2024)]" "''q''" summary_feb_2024 stub_bot
        "''whole may 2024''" 2026]
  note w2 = month_expansion_lengths [OF \<open>(1::int) \<le> 2\<close> \<open>(2::int) \<le> 12\<close>,
      of 2023 "stub_env [(''q'', JObj analysis_feb_2023)]" "''q''" analysis_feb_2023 stub_bot
        "''whole february 2024''" 2026]
  have a: "\<exists>ds. length ds = 29
        \<and> snd (snd (handle_query (stub_env [(''q'', JObj summary_feb_2024)]) stub_bot ''q''))
            = [GetSalesSummary JNull (Some ds)]"
    using w1 [THEN conjunct1] by (auto simp: stub_extract g p l)
  have b: "\<exists>ds. length ds = 28
        \<and> snd (snd (handle_query (stub_env [(''q'', JObj analysis_feb_2023)]) stub_bot ''q''))
            = [GetSalesSummary JNull (Some ds)]"
    using w2 [THEN conjunct1] by (auto simp: stub_extract g q l)
  have d: "length (parse_date_input 2026 ''whole may 2024'') = 31"
    using w1 [THEN conjunct2, THEN conjunct1] c(1) by (simp add: l)
  have e: "length (parse_date_input 2026 ''whole february 2024'') \<le> 1"
    using w2 [THEN conjunct2, THEN conjunct2] c(2) by simp
  show ?thesis using a b d e by blast
qed

end
